theory Spec2Isabelle
  imports Main "HOL-Library.Word"
begin

unbundle bit_operations_syntax

section \<open>Bytes and UTF-8\<close>

text \<open>
  The edit buffer is a vector of \<^verbatim>\<open>uint8_t\<close>; prompts and messages are strings of
  \<^verbatim>\<open>char\<close>. Both are lists of 8-bit words here.
\<close>

type_synonym byte = "8 word"

text \<open>The test \<^verbatim>\<open>(ch & 0xc0) != 0x80\<close> of the source, negated: a continuation byte.\<close>

definition is_cont :: "byte \<Rightarrow> bool" where
  "is_cont b = (b AND 0xC0 = 0x80)"

text \<open>
  \<^verbatim>\<open>nonescape_len\<close>: the loop over the characters of the string, with its two
  variables \<^verbatim>\<open>in_csi\<close> and \<^verbatim>\<open>res\<close>.
\<close>

fun nonescape_loop :: "bool \<Rightarrow> nat \<Rightarrow> byte list \<Rightarrow> nat" where
  "nonescape_loop in_csi res [] = res"
| "nonescape_loop in_csi res (ch # sv) =
     (if \<not> in_csi then
        (if ch = 0x1B then nonescape_loop True res sv
         else if ch AND 0xC0 \<noteq> 0x80 then nonescape_loop in_csi (res + 1) sv
         else nonescape_loop in_csi res sv)
      else nonescape_loop (in_csi \<and> (ch = 0x5B \<or> ch < 0x40 \<or> ch > 0x7E)) res sv)"

definition nonescape_len :: "byte list \<Rightarrow> nat" where
  "nonescape_len sv = nonescape_loop False 0 sv"

subsection \<open>The libunistring primitives the editor calls\<close>

text \<open>
  Modelled from the spec: the Unicode string library (\<^verbatim>\<open>unistr.h\<close>, \<^verbatim>\<open>unictype.h\<close>) is
  an external collaborator of the repository; the functions below follow its documented
  behaviour. \<^verbatim>\<open>u8_uctomb\<close> encodes one code point (\<open>None\<close> is its negative return).
\<close>

definition u8_uctomb :: "nat \<Rightarrow> byte list option" where
  "u8_uctomb uc =
     (if uc < 0x80 then Some [word_of_nat uc]
      else if uc < 0x800 then
        Some [word_of_nat (0xC0 + uc div 64), word_of_nat (0x80 + uc mod 64)]
      else if uc < 0x10000 then
        (if 0xD800 \<le> uc \<and> uc < 0xE000 then None
         else Some [word_of_nat (0xE0 + uc div 4096),
                    word_of_nat (0x80 + (uc div 64) mod 64),
                    word_of_nat (0x80 + uc mod 64)])
      else if uc < 0x110000 then
        Some [word_of_nat (0xF0 + uc div 262144),
              word_of_nat (0x80 + (uc div 4096) mod 64),
              word_of_nat (0x80 + (uc div 64) mod 64),
              word_of_nat (0x80 + uc mod 64)]
      else None)"

text \<open>
  \<^verbatim>\<open>u8_mbtoucr\<close> decodes the character at the head of the given bytes and returns the
  code point and the number of bytes it takes; \<open>None\<close> is a negative return (invalid or
  incomplete), with which the library stores \<^verbatim>\<open>0xfffd\<close> as the code point. The
  NUL character is not special.
\<close>

definition cont_val :: "byte \<Rightarrow> nat" where
  "cont_val b = unat b - 0x80"

fun u8_mbtoucr :: "byte list \<Rightarrow> (nat \<times> nat) option" where
  "u8_mbtoucr [] = None"
| "u8_mbtoucr (c # s) =
     (if c < 0x80 then Some (unat c, 1)
      else if c < 0xC2 then None
      else if c < 0xE0 then
        (case s of
           c1 # _ \<Rightarrow> if is_cont c1 then Some ((unat c - 0xC0) * 64 + cont_val c1, 2) else None
         | _ \<Rightarrow> None)
      else if c < 0xF0 then
        (case s of
           c1 # c2 # _ \<Rightarrow>
             if is_cont c1 \<and> is_cont c2 \<and> (c \<ge> 0xE1 \<or> c1 \<ge> 0xA0) \<and> (c \<noteq> 0xED \<or> c1 < 0xA0)
             then Some ((unat c - 0xE0) * 4096 + cont_val c1 * 64 + cont_val c2, 3) else None
         | _ \<Rightarrow> None)
      else if c \<le> 0xF4 then
        (case s of
           c1 # c2 # c3 # _ \<Rightarrow>
             if is_cont c1 \<and> is_cont c2 \<and> is_cont c3 \<and> (c \<ge> 0xF1 \<or> c1 \<ge> 0x90)
                \<and> (c < 0xF4 \<or> c1 < 0x90)
             then Some ((unat c - 0xF0) * 262144 + cont_val c1 * 4096 + cont_val c2 * 64
                        + cont_val c3, 4)
             else None
         | _ \<Rightarrow> None)
      else None)"

lemma u8_mbtoucr_len: "u8_mbtoucr bs = Some (uc, l) \<Longrightarrow> 0 < l \<and> l \<le> length bs"
  by (cases bs) (auto split: if_splits list.splits)

text \<open>Well-formed UTF-8: the bytes split into characters that \<^verbatim>\<open>u8_mbtoucr\<close> accepts.\<close>

function valid_utf8 :: "byte list \<Rightarrow> bool" where
  "valid_utf8 bs =
     (if bs = [] then True
      else case u8_mbtoucr bs of None \<Rightarrow> False | Some (uc, l) \<Rightarrow> valid_utf8 (drop l bs))"
  by pat_completeness auto
termination
  by (relation "measure length") (auto dest: u8_mbtoucr_len)

declare valid_utf8.simps [simp del]

text \<open>
  \<^verbatim>\<open>u8_mbsnlen\<close>: the number of characters in the bytes. On ill-formed input the
  library resynchronises; what it skips there is not modelled (one unit is skipped).
\<close>

function u8_mbsnlen :: "byte list \<Rightarrow> nat" where
  "u8_mbsnlen bs =
     (if bs = [] then 0
      else case u8_mbtoucr bs of
             None \<Rightarrow> Suc (u8_mbsnlen (tl bs))
           | Some (uc, l) \<Rightarrow> Suc (u8_mbsnlen (drop l bs)))"
  by pat_completeness auto
termination
  by (relation "measure length") (auto dest: u8_mbtoucr_len)

declare u8_mbsnlen.simps [simp del]

text \<open>
  \<^verbatim>\<open>u8_prev\<close> steps back over the character that ends where the given bytes end (the
  bytes from the start of the buffer up to the current position). It returns the length of
  that character and its code point; \<open>None\<close> is the library's \<^verbatim>\<open>NULL\<close>. The library
  inspects the last byte, then the last two, three and four.
\<close>

definition prev_at :: "byte list \<Rightarrow> nat \<Rightarrow> (nat \<times> nat) option" where
  "prev_at pre k =
     (if k \<le> length pre then
        (case u8_mbtoucr (drop (length pre - k) pre) of
           Some (uc, l) \<Rightarrow> if l = k then Some (k, uc) else None
         | None \<Rightarrow> None)
      else None)"

definition u8_prev :: "byte list \<Rightarrow> (nat \<times> nat) option" where
  "u8_prev pre =
     (case prev_at pre 1 of Some r \<Rightarrow> Some r | None \<Rightarrow>
      (case prev_at pre 2 of Some r \<Rightarrow> Some r | None \<Rightarrow>
       (case prev_at pre 3 of Some r \<Rightarrow> Some r | None \<Rightarrow> prev_at pre 4)))"

lemma prev_at_Some: "prev_at pre k = Some (k', uc) \<Longrightarrow> k' = k \<and> 0 < k \<and> k \<le> length pre"
  by (auto simp: prev_at_def split: option.splits if_splits dest: u8_mbtoucr_len)

lemma u8_prev_Some: "u8_prev pre = Some (k, uc) \<Longrightarrow> 0 < k \<and> k \<le> length pre"
  unfolding u8_prev_def by (auto split: option.splits dest: prev_at_Some)

text \<open>
  \<^verbatim>\<open>u8_next\<close> reads a NUL-terminated string. It stores a code point and returns the
  position after the character at the head of the bytes (here: its length), or
  \<^verbatim>\<open>NULL\<close> (here \<open>None\<close>) at a NUL character, where it stores \<open>0\<close>, and at an
  ill-formed character, where it stores \<^verbatim>\<open>0xfffd\<close>.
\<close>

definition u8_next :: "byte list \<Rightarrow> nat \<times> nat option" where
  "u8_next bs =
     (case u8_mbtoucr bs of
        Some (uc, l) \<Rightarrow> if uc = 0 then (0, None) else (uc, Some l)
      | None \<Rightarrow> (0xFFFD, None))"

lemma u8_next_Some: "u8_next bs = (uc, Some l) \<Longrightarrow> 0 < l \<and> l \<le> length bs"
  by (auto simp: u8_next_def split: option.splits if_splits dest: u8_mbtoucr_len)

text \<open>
  \<^verbatim>\<open>u8_strnlen\<close> counts units (bytes), not characters: the number of bytes before the
  first NUL byte, and at most the given maximum (the length of the bytes passed here).
\<close>

definition u8_strnlen :: "byte list \<Rightarrow> nat" where
  "u8_strnlen bs = length (takeWhile (\<lambda>b. b \<noteq> 0) bs)"

section \<open>The session state\<close>

text \<open>
  How a call ends: it returns, it stops the process (a failed \<^verbatim>\<open>assert\<close>, a call of
  \<^verbatim>\<open>error(EXIT_FAILURE, ...)\<close>, the exception of \<^verbatim>\<open>setup_epoll\<close>, or C++ undefined
  behaviour such as an iterator outside its vector), or it never returns.
\<close>

datatype failure = AssertFailed | UndefinedBehaviour | FatalExit | NotATerminal

datatype 'a result = Ret 'a | Fail failure | Diverge

definition bind :: "'a result \<Rightarrow> ('a \<Rightarrow> 'b result) \<Rightarrow> 'b result" where
  "bind m f = (case m of Ret x \<Rightarrow> f x | Fail e \<Rightarrow> Fail e | Diverge \<Rightarrow> Diverge)"

text \<open>
  \<^verbatim>\<open>unsigned\<close> values are natural numbers. Sizes and offsets are taken to stay below
  \<open>2\<^sup>3\<^sup>2\<close> (a buffer of less than 4 GiB), so sums do not wrap; a difference of two
  \<^verbatim>\<open>unsigned\<close> values wraps around below zero as in C++.
\<close>

definition usub :: "nat \<Rightarrow> nat \<Rightarrow> nat" where
  "usub a b = (if b \<le> a then a - b else a + 2 ^ 32 - b)"

text \<open>The sum of an \<^verbatim>\<open>unsigned\<close> and an \<^verbatim>\<open>int\<close>, as \<^verbatim>\<open>unsigned\<close>.\<close>

definition uadd_int :: "nat \<Rightarrow> int \<Rightarrow> nat" where
  "uadd_int a i = nat ((int a + i) mod 2 ^ 32)"

datatype state = invalid | open' | closed

record color =
  red :: byte
  green :: byte
  blue :: byte

definition color0 :: color where
  "color0 = \<lparr>red = 0, green = 0, blue = 0\<rparr>"

text \<open>What the editor reads of \<^verbatim>\<open>terminal::info\<close> (the terminal detection library).\<close>

record terminal_info =
  default_foreground :: color
  default_background :: color
  scroll_markers :: bool

datatype prompt_src = Literal "byte list" | Callback

text \<open>
  \<^verbatim>\<open>struct handle\<close>. The flags are the integer of \<^verbatim>\<open>enum struct flags\<close>
  (\<open>none = 0\<close>, \<open>frame_line = 1\<close>, \<open>frame_background = 2\<close>, \<open>frame = 3\<close>). The last four
  fields are not members of the structure: \<open>tty\<close> is every byte written to the terminal so
  far, in order, and \<open>winch_blocked\<close>, \<open>nonblock\<close> and \<open>epoll_set\<close> are the signal mask, the
  file status flag and the epoll registrations that the session changes.
\<close>

record handle =
  buffer :: "byte list"
  line_offset :: "nat list"
  max_lines :: nat
  prompt :: prompt_src
  empty_message :: "byte list"
  empty_message_fg :: color
  fd :: int
  fl :: nat
  term_state :: state
  info :: terminal_info
  term_rows :: nat
  term_cols :: nat
  cur_frame_lines :: nat
  frame_highlight_fg :: color
  text_default_fg :: color
  text_default_bg :: color
  tk_null :: bool
  tkfd :: int
  old_mask_winch :: bool
  sigfd :: int
  epfd :: int
  extern_epfd :: bool
  multiline :: bool
  insert' :: bool
  osc133 :: bool
  initial_col :: nat
  initial_row :: nat
  offset :: nat
  nchars :: nat
  pos_x :: nat
  requested_pos_x :: nat
  pos_y :: nat
  prompt_len :: nat
  tty :: "byte list"
  winch_blocked :: bool
  nonblock :: bool
  epoll_set :: "int list"

definition emit :: "byte list \<Rightarrow> handle \<Rightarrow> handle" where
  "emit bs s = s\<lparr>tty := tty s @ bs\<rparr>"

subsection \<open>Formatting\<close>

text \<open>The decimal digits that \<^verbatim>\<open>%u\<close> and \<^verbatim>\<open>{}\<close> print.\<close>

function decimal :: "nat \<Rightarrow> byte list" where
  "decimal n = (if n < 10 then [word_of_nat (48 + n)]
                else decimal (n div 10) @ [word_of_nat (48 + n mod 10)])"
  by pat_completeness auto
termination
  by (relation "measure id") auto

declare decimal.simps [simp del]

text \<open>\<^verbatim>\<open>move_to_buf\<close>: \<^verbatim>\<open>"\e[%u;%uH"\<close> with \<^verbatim>\<open>initial_row + y\<close> and \<^verbatim>\<open>initial_col + x\<close>.\<close>

definition move_to_buf :: "handle \<Rightarrow> int \<Rightarrow> int \<Rightarrow> byte list" where
  "move_to_buf s x y =
     [0x1B, 0x5B] @ decimal (uadd_int (initial_row s) y) @ [0x3B]
     @ decimal (uadd_int (initial_col s) x) @ [0x48]"

definition move_to :: "handle \<Rightarrow> int \<Rightarrow> int \<Rightarrow> handle" where
  "move_to s x y = emit (move_to_buf s x y) s"

definition clear_eol :: "byte list" where
  "clear_eol = [0x1B, 0x5B, 0x4B]"

definition nl_clear_eol :: "byte list" where
  "nl_clear_eol = [0x0A, 0x1B, 0x5B, 0x4B]"

subsection \<open>Screen geometry\<close>

text \<open>The step of \<^verbatim>\<open>offset_after_n_chars\<close> over one character, from its first byte.\<close>

definition utf8_step :: "byte \<Rightarrow> nat" where
  "utf8_step c = (if c < 0x80 then 1 else if c < 0xE0 then 2 else if c < 0xF0 then 3 else 4)"

text \<open>
  \<^verbatim>\<open>offset_after_n_chars\<close>: the loop with its variables \<^verbatim>\<open>offset\<close> and \<^verbatim>\<open>cnt\<close>, and
  its two assertions.
\<close>

function offset_after_n_loop :: "byte list \<Rightarrow> nat \<Rightarrow> nat \<Rightarrow> nat \<Rightarrow> (nat \<times> nat) result" where
  "offset_after_n_loop buf n offs cnt =
     (if offs < length buf \<and> cnt < n then
        (if \<not> (buf ! offs < 0x80 \<or> ((buf ! offs) AND 0xC0 \<noteq> 0x80 \<and> buf ! offs < 0xF8))
         then Fail AssertFailed
         else if \<not> offs + utf8_step (buf ! offs) \<le> length buf then Fail AssertFailed
         else offset_after_n_loop buf n (offs + utf8_step (buf ! offs)) (cnt + 1))
      else Ret (offs, cnt))"
  by pat_completeness auto
termination
  by (relation "measure (\<lambda>(buf, n, offs, cnt). n - cnt)") auto

declare offset_after_n_loop.simps [simp del]

definition offset_after_n_chars :: "handle \<Rightarrow> nat \<Rightarrow> nat \<Rightarrow> (nat \<times> nat) result" where
  "offset_after_n_chars s n offs = offset_after_n_loop (buffer s) n offs 0"

text \<open>
  \<^verbatim>\<open>recompute_line_offset\<close>. Its loop does not end when \<^verbatim>\<open>avail\<close> and
  \<^verbatim>\<open>term_cols\<close> are both zero, so the loop is a partial function: \<open>None\<close> is a run that
  never returns, and \<^verbatim>\<open>recompute_line_offset\<close> turns it into \<open>Diverge\<close>.
  \<^verbatim>\<open>resize(r + 1)\<close> cuts the vector or fills it with zeros.
\<close>

partial_function (option) recompute_loop ::
  "byte list \<Rightarrow> nat \<Rightarrow> nat \<Rightarrow> nat \<Rightarrow> nat list \<Rightarrow> nat list result option" where
  "recompute_loop buf cols ofs avail lo =
     (if ofs < length buf then
        (case offset_after_n_loop buf avail ofs 0 of
           Ret (next, nch) \<Rightarrow>
             if nch < avail then Some (Ret lo)
             else recompute_loop buf cols next cols (lo @ [next])
         | Fail e \<Rightarrow> Some (Fail e)
         | Diverge \<Rightarrow> None)
      else Some (Ret lo))"

declare recompute_loop.simps [code]

definition resize :: "nat \<Rightarrow> nat list \<Rightarrow> nat list" where
  "resize n xs = take n xs @ replicate (n - length xs) 0"

definition recompute_line_offset :: "handle \<Rightarrow> nat \<Rightarrow> handle result" where
  "recompute_line_offset s r =
     (let avail = usub (term_cols s) (if r = 0 then prompt_len s else 0);
          lo = resize (r + 1) (line_offset s)
      in case recompute_loop (buffer s) (term_cols s) (lo ! r) avail lo of
           None \<Rightarrow> Diverge
         | Some (Ret lo') \<Rightarrow> Ret (s\<lparr>line_offset := lo'\<rparr>)
         | Some (Fail e) \<Rightarrow> Fail e
         | Some Diverge \<Rightarrow> Diverge)"

section \<open>Edit actions\<close>

text \<open>
  Every action returns the \<^verbatim>\<open>bool\<close> of the source (\<open>True\<close>: the line is committed)
  and the state it leaves. \<^verbatim>\<open>move_to\<close> receives \<^verbatim>\<open>unsigned\<close> coordinates as
  \<^verbatim>\<open>int\<close> and adds them back to \<^verbatim>\<open>unsigned\<close> values, which is the sum modulo
  \<open>2\<^sup>3\<^sup>2\<close>.
\<close>

type_synonym action_result = "(bool \<times> handle) result"

definition move_to_cursor :: "handle \<Rightarrow> handle" where
  "move_to_cursor s = move_to s (int (pos_x s)) (int (pos_y s))"

definition cb_beginning_of_line :: "handle \<Rightarrow> action_result" where
  "cb_beginning_of_line s =
     (if offset s \<noteq> 0 then
        Ret (False, move_to_cursor (s\<lparr>pos_x := prompt_len s, pos_y := 0, offset := 0\<rparr>))
      else Ret (False, s))"

definition cb_end_of_line :: "handle \<Rightarrow> action_result" where
  "cb_end_of_line s =
     (if offset s \<noteq> length (buffer s) then
        (let y = usub (length (line_offset s)) 1 in
         if \<not> y < length (line_offset s) \<or> \<not> line_offset s ! y \<le> length (buffer s)
         then Fail UndefinedBehaviour
         else
           let x = (if y = 0 then prompt_len s else 0)
                   + u8_strnlen (drop (line_offset s ! y) (buffer s))
           in Ret (False, move_to_cursor
                (s\<lparr>pos_y := y, pos_x := x, requested_pos_x := x,
                   offset := length (buffer s)\<rparr>)))
      else Ret (False, s))"

definition cb_insert :: "handle \<Rightarrow> action_result" where
  "cb_insert s = Ret (False, s\<lparr>insert' := \<not> insert' s\<rparr>)"

definition cb_enter :: "handle \<Rightarrow> action_result" where
  "cb_enter s = Ret (True, s)"

definition cb_backward_char :: "handle \<Rightarrow> action_result" where
  "cb_backward_char s =
     (if offset s > 0 then
        (if \<not> offset s \<le> length (buffer s) then Fail UndefinedBehaviour
         else case u8_prev (take (offset s) (buffer s)) of
           None \<Rightarrow> Fail AssertFailed
         | Some (k, uc) \<Rightarrow>
             let s1 = s\<lparr>offset := offset s - k\<rparr> in
             if pos_x s1 = 0 \<and> multiline s1 \<and> \<not> pos_y s1 > 0 then Fail AssertFailed
             else
               let s2 = (if pos_x s1 = 0 then
                           (if multiline s1
                            then s1\<lparr>pos_x := usub (term_cols s1) 1, pos_y := pos_y s1 - 1\<rparr>
                            else s1)
                         else s1\<lparr>pos_x := pos_x s1 - 1\<rparr>);
                   s3 = s2\<lparr>requested_pos_x := pos_x s2\<rparr>
               in Ret (False, move_to_cursor s3))
      else Ret (False, s))"

definition cb_forward_char :: "handle \<Rightarrow> action_result" where
  "cb_forward_char s =
     (if offset s < length (buffer s) then
        (case u8_mbtoucr (drop (offset s) (buffer s)) of
           None \<Rightarrow> Fail AssertFailed
         | Some (uc, l) \<Rightarrow>
             if uc = 0xFFFD then Fail AssertFailed
             else
               let s1 = s\<lparr>offset := offset s + l\<rparr> in
               if pos_x s1 + 1 = term_cols s1 \<and> multiline s1
                  \<and> \<not> pos_y s1 < length (line_offset s1)
               then Fail AssertFailed
               else
                 let s2 = (if pos_x s1 + 1 = term_cols s1 then
                             (if multiline s1 then s1\<lparr>pos_x := 0, pos_y := pos_y s1 + 1\<rparr>
                              else s1)
                           else s1\<lparr>pos_x := pos_x s1 + 1\<rparr>);
                     s3 = s2\<lparr>requested_pos_x := pos_x s2\<rparr>
                 in Ret (False, move_to_cursor s3))
      else Ret (False, s))"

definition cb_previous_screen_line :: "handle \<Rightarrow> action_result" where
  "cb_previous_screen_line s =
     (if pos_y s > 0 then
        (if pos_y s > 1 \<or> requested_pos_x s \<ge> prompt_len s then
           (let s1 = s\<lparr>pos_y := pos_y s - 1\<rparr> in
            if \<not> pos_y s1 < length (line_offset s1) then Fail UndefinedBehaviour
            else
              bind (offset_after_n_chars s1
                      (usub (requested_pos_x s1) (if pos_y s1 = 0 then prompt_len s1 else 0))
                      (line_offset s1 ! pos_y s1))
                (\<lambda>(new_offset, cnt).
                   let s2 = s1\<lparr>offset := new_offset, pos_x := cnt\<rparr>;
                       s3 = (if pos_y s2 = 0 then s2\<lparr>pos_x := pos_x s2 + prompt_len s2\<rparr>
                             else s2)
                   in Ret (False, move_to_cursor s3)))
         else Ret (False, s))
      else Ret (False, s))"

definition cb_next_screen_line :: "handle \<Rightarrow> action_result" where
  "cb_next_screen_line s =
     (if pos_y s + 1 < length (line_offset s) then
        (let s1 = s\<lparr>pos_y := pos_y s + 1, requested_pos_x := pos_x s\<rparr> in
         bind (offset_after_n_chars s1 (requested_pos_x s1) (line_offset s1 ! pos_y s1))
           (\<lambda>(new_offset, cnt).
              Ret (False, move_to_cursor (s1\<lparr>offset := new_offset, pos_x := cnt\<rparr>))))
      else Ret (False, s))"

text \<open>
  The redraw of \<^verbatim>\<open>cb_backspace\<close> and \<^verbatim>\<open>cb_delete\<close>: the rest of the buffer, one
  space, and the cursor position, in one \<^verbatim>\<open>writev\<close>.
\<close>

definition redraw_tail :: "handle \<Rightarrow> handle" where
  "redraw_tail s =
     emit (drop (offset s) (buffer s) @ [0x20]
           @ move_to_buf s (int (pos_x s)) (int (pos_y s))) s"

definition erase :: "nat \<Rightarrow> nat \<Rightarrow> 'a list \<Rightarrow> 'a list" where
  "erase i j xs = take i xs @ drop j xs"

definition cb_backspace :: "handle \<Rightarrow> action_result" where
  "cb_backspace s =
     (if offset s > 0 then
        (let old_offset = offset s in
         bind (cb_backward_char s)
           (\<lambda>(_, s1).
              if \<not> offset s1 \<noteq> old_offset then Fail AssertFailed
              else
                let s2 = s1\<lparr>buffer := erase (offset s1) old_offset (buffer s1),
                            nchars := usub (nchars s1) 1\<rparr>
                in bind (recompute_line_offset s2 (pos_y s2))
                     (\<lambda>s3. let s4 = redraw_tail s3
                           in Ret (False, s4\<lparr>requested_pos_x := pos_x s4\<rparr>))))
      else Ret (False, s))"

definition cb_delete :: "handle \<Rightarrow> action_result" where
  "cb_delete s =
     (if offset s < length (buffer s) then
        (case u8_mbtoucr (drop (offset s) (buffer s)) of
           None \<Rightarrow> Fail AssertFailed
         | Some (uc, n) \<Rightarrow>
             let s2 = s\<lparr>buffer := erase (offset s) (offset s + n) (buffer s),
                         nchars := usub (nchars s) 1\<rparr>
             in bind (recompute_line_offset s2 (pos_y s2))
                  (\<lambda>s3. let s4 = redraw_tail s3
                        in Ret (False, s4\<lparr>requested_pos_x := pos_x s4\<rparr>)))
      else Ret (False, s))"

subsection \<open>Word motions\<close>

text \<open>
  The word class is \<^verbatim>\<open>uc_is_general_category\<close> with the categories letter and number,
  a table of the Unicode library: it is the parameter \<open>cat\<close> of the two word motions and
  of everything that calls them.

  The scan of \<^verbatim>\<open>cb_backward_word\<close>. When \<^verbatim>\<open>u8_prev\<close> fails inside the loop,
  \<^verbatim>\<open>uc2\<close> is read uninitialised.
\<close>

function backward_word_loop :: "(nat \<Rightarrow> bool) \<Rightarrow> byte list \<Rightarrow> nat \<Rightarrow> nat \<Rightarrow> nat result" where
  "backward_word_loop cat buf p uc1 =
     (if p > 0 then
        (case u8_prev (take p buf) of
           None \<Rightarrow> Fail UndefinedBehaviour
         | Some (k, uc2) \<Rightarrow>
             if cat uc1 \<and> \<not> cat uc2 then Ret p
             else backward_word_loop cat buf (p - k) uc2)
      else Ret p)"
  by pat_completeness auto
termination
  by (relation "measure (\<lambda>(cat, buf, p, uc1). p)")
     (auto dest: u8_prev_Some)

declare backward_word_loop.simps [simp del]

text \<open>The loop that moves \<^verbatim>\<open>pos_y\<close> up to the row of the new offset.\<close>

function row_backward :: "nat list \<Rightarrow> nat \<Rightarrow> nat \<Rightarrow> nat result" where
  "row_backward lo offs y =
     (if \<not> y < length lo then Fail UndefinedBehaviour
      else if lo ! y > offs then
        (if \<not> y > 0 then Fail AssertFailed else row_backward lo offs (y - 1))
      else Ret y)"
  by pat_completeness auto
termination
  by (relation "measure (\<lambda>(lo, offs, y). y)") auto

declare row_backward.simps [simp del]

function row_forward :: "nat list \<Rightarrow> nat \<Rightarrow> nat \<Rightarrow> nat" where
  "row_forward lo offs y =
     (if y + 1 < length lo \<and> offs \<ge> lo ! (y + 1) then row_forward lo offs (y + 1) else y)"
  by pat_completeness auto
termination
  by (relation "measure (\<lambda>(lo, offs, y). length lo - y)") auto

declare row_forward.simps [simp del]

text \<open>
  The column of the cursor from the start of its row, as both word motions compute it
  with \<^verbatim>\<open>u8_mbsnlen\<close>, and the rest of the two functions.
\<close>

definition word_finish :: "handle \<Rightarrow> action_result" where
  "word_finish s =
     (if \<not> pos_y s < length (line_offset s) \<or> \<not> line_offset s ! pos_y s \<le> offset s
         \<or> \<not> offset s \<le> length (buffer s)
      then Fail UndefinedBehaviour
      else
        let x = u8_mbsnlen (take (offset s - line_offset s ! pos_y s)
                              (drop (line_offset s ! pos_y s) (buffer s)));
            x' = (if pos_y s = 0 then x + prompt_len s else x)
        in Ret (False, move_to_cursor (s\<lparr>pos_x := x', requested_pos_x := x'\<rparr>)))"

definition cb_backward_word :: "(nat \<Rightarrow> bool) \<Rightarrow> handle \<Rightarrow> action_result" where
  "cb_backward_word cat s =
     (if offset s > 0 then
        (if \<not> offset s \<le> length (buffer s) then Fail UndefinedBehaviour
         else case u8_prev (take (offset s) (buffer s)) of
           None \<Rightarrow> Fail UndefinedBehaviour
         | Some (k, uc1) \<Rightarrow>
             bind (backward_word_loop cat (buffer s) (offset s - k) uc1)
               (\<lambda>p. bind (row_backward (line_offset s) p (pos_y s))
                  (\<lambda>y. word_finish (s\<lparr>offset := p, pos_y := y\<rparr>))))
      else Ret (False, s))"

text \<open>
  The scan of \<^verbatim>\<open>cb_forward_word\<close>, from the \<^verbatim>\<open>while\<close>: \<open>p\<close> and \<open>q\<close> are offsets
  into the buffer. After a failed \<^verbatim>\<open>u8_next\<close> the next round passes \<^verbatim>\<open>NULL\<close> on.
\<close>

function forward_word_loop ::
  "(nat \<Rightarrow> bool) \<Rightarrow> byte list \<Rightarrow> nat \<Rightarrow> nat \<Rightarrow> nat \<Rightarrow> nat result" where
  "forward_word_loop cat buf p q uc1 =
     (if q \<le> length buf then
        (if q = length buf then Ret q
         else case u8_next (drop q buf) of
           (uc2, r) \<Rightarrow>
             if cat uc1 \<and> \<not> cat uc2 then Ret q
             else (case r of
                     None \<Rightarrow> Fail UndefinedBehaviour
                   | Some l \<Rightarrow> forward_word_loop cat buf q (q + l) uc2))
      else Ret p)"
  by pat_completeness auto
termination
  by (relation "measure (\<lambda>(cat, buf, p, q, uc1). length buf - q)")
     (auto dest: u8_next_Some [OF sym])

declare forward_word_loop.simps [simp del]

definition cb_forward_word :: "(nat \<Rightarrow> bool) \<Rightarrow> handle \<Rightarrow> action_result" where
  "cb_forward_word cat s =
     (if offset s + 1 < length (buffer s) then
        (case u8_next (drop (offset s) (buffer s)) of
           (_, None) \<Rightarrow> Fail UndefinedBehaviour
         | (_, Some l) \<Rightarrow>
             let p = offset s + l in
             bind (if p < length (buffer s) then
                     (case u8_next (drop p (buffer s)) of
                        (_, None) \<Rightarrow> Fail UndefinedBehaviour
                      | (uc1, Some l') \<Rightarrow> forward_word_loop cat (buffer s) p (p + l') uc1)
                   else Ret p)
               (\<lambda>p'. let s1 = s\<lparr>offset := p'\<rparr>
                     in word_finish
                          (s1\<lparr>pos_y := row_forward (line_offset s1) (offset s1) (pos_y s1)\<rparr>)))
      else Ret (False, s))"

subsection \<open>Discarding\<close>

definition cb_unix_line_discard :: "handle \<Rightarrow> action_result" where
  "cb_unix_line_discard s =
     (if offset s > 0 then
        (if \<not> offset s \<le> length (buffer s) then Fail UndefinedBehaviour
         else
           let old_nlines = length (line_offset s);
               s1 = s\<lparr>buffer := erase 0 (offset s) (buffer s),
                       pos_x := prompt_len s, pos_y := 0\<rparr>
           in bind (recompute_line_offset s1 0)
                (\<lambda>s2. let movbuf = move_to_buf s2 (int (pos_x s2)) (int (pos_y s2))
                      in Ret (False,
                           emit (movbuf @ buffer s2 @ clear_eol
                                 @ concat (replicate (old_nlines - length (line_offset s2))
                                             nl_clear_eol)
                                 @ movbuf) s2)))
      else Ret (False, s))"

definition cb_kill_line :: "handle \<Rightarrow> action_result" where
  "cb_kill_line s =
     (if offset s < length (buffer s) then
        (let old_nlines = length (line_offset s);
             s1 = s\<lparr>buffer := erase (offset s) (length (buffer s)) (buffer s)\<rparr>
         in bind (recompute_line_offset s1 (pos_y s1))
              (\<lambda>s2. Ret (False,
                   emit (clear_eol
                         @ (if old_nlines > length (line_offset s2) then
                              concat (replicate (old_nlines - length (line_offset s2))
                                        nl_clear_eol)
                              @ move_to_buf s2 (int (pos_x s2)) (int (pos_y s2))
                            else [])) s2)))
      else Ret (False, s))"

section \<open>Key dispatch and insertion\<close>

text \<open>
  What the editor reads of a \<^verbatim>\<open>TermKeyKey\<close> of the key decoding library: the type, the
  modifier mask and the code point or the symbol. Only the symbols of the key table are
  named.
\<close>

datatype TermKeySym =
    SYM_HOME | SYM_END | SYM_INSERT | SYM_ENTER | SYM_LEFT | SYM_RIGHT | SYM_UP | SYM_DOWN
  | SYM_BACKSPACE | SYM_DELETE | SYM_OTHER int

datatype TermKeyKey =
    KEY_UNICODE nat int
  | KEY_KEYSYM nat TermKeySym
  | KEY_OTHER nat

definition KEYMOD_SHIFT :: nat where "KEYMOD_SHIFT = 1"
definition KEYMOD_ALT :: nat where "KEYMOD_ALT = 2"
definition KEYMOD_CTRL :: nat where "KEYMOD_CTRL = 4"

text \<open>
  \<^verbatim>\<open>struct key\<close>: the modifier mask and the code; the flag \<^verbatim>\<open>sym\<close> is the
  constructor of the code. The order of the structure compares all three members, so
  \<^verbatim>\<open>find\<close> looks for the entry with the same three members.
\<close>

datatype keycode = CODEPOINT int | SYM TermKeySym

type_synonym key = "nat \<times> keycode"

definition key_map :: "(nat \<Rightarrow> bool) \<Rightarrow> (key \<times> (handle \<Rightarrow> action_result)) list" where
  "key_map cat =
     [((KEYMOD_CTRL, CODEPOINT 97), cb_beginning_of_line),
      ((0, SYM SYM_HOME), cb_beginning_of_line),
      ((KEYMOD_CTRL, CODEPOINT 101), cb_end_of_line),
      ((0, SYM SYM_END), cb_end_of_line),
      ((0, SYM SYM_INSERT), cb_insert),
      ((0, SYM SYM_ENTER), cb_enter),
      ((0, SYM SYM_LEFT), cb_backward_char),
      ((0, SYM SYM_RIGHT), cb_forward_char),
      ((0, SYM SYM_UP), cb_previous_screen_line),
      ((0, SYM SYM_DOWN), cb_next_screen_line),
      ((0, SYM SYM_BACKSPACE), cb_backspace),
      ((0, SYM SYM_DELETE), cb_delete),
      ((KEYMOD_ALT, CODEPOINT 98), cb_backward_word cat),
      ((KEYMOD_ALT, CODEPOINT 102), cb_forward_word cat),
      ((KEYMOD_CTRL, CODEPOINT 117), cb_unix_line_discard),
      ((KEYMOD_CTRL, CODEPOINT 107), cb_kill_line)]"

definition key_map_find :: "(nat \<Rightarrow> bool) \<Rightarrow> key \<Rightarrow> (handle \<Rightarrow> action_result) option" where
  "key_map_find cat k = map_of (key_map cat) k"

definition sgr_fg :: "color \<Rightarrow> byte list" where
  "sgr_fg c =
     [0x1B, 0x5B, 0x33, 0x38, 0x3B, 0x32, 0x3B] @ decimal (unat (red c)) @ [0x3B]
     @ decimal (unat (green c)) @ [0x3B] @ decimal (unat (blue c)) @ [0x6D]"

definition show_empty_message :: "handle \<Rightarrow> handle" where
  "show_empty_message s =
     (let colon = sgr_fg (empty_message_fg s);
          coloff = (if text_default_fg s \<noteq> color0 then sgr_fg (text_default_fg s)
                    else [0x1B, 0x5B, 0x6D])
      in emit (colon @ empty_message s @ coloff
               @ move_to_buf s (int (pos_x s)) (int (pos_y s))) s)"

text \<open>
  The insertion path of \<^verbatim>\<open>on_key\<close>, in the pieces of its \<^verbatim>\<open>if\<close>: each returns the
  state and \<^verbatim>\<open>to_print\<close>. \<open>bs\<close> is the encoded character and \<open>l\<close> its length.
\<close>

definition insert_at :: "nat \<Rightarrow> 'a list \<Rightarrow> 'a list \<Rightarrow> 'a list" where
  "insert_at i bs xs = take i xs @ bs @ drop i xs"

definition on_key_multiline :: "handle \<Rightarrow> nat \<Rightarrow> (handle \<times> int) result" where
  "on_key_multiline s l =
     (let old_nlines = length (line_offset s) in
      bind (recompute_line_offset s (pos_y s))
        (\<lambda>s1.
           let to_print = int (length (buffer s1)) - int (offset s1) in
           bind (if pos_x s1 = 0 \<and> pos_y s1 > 0 \<and> offset s1 + l = length (buffer s1) then
                   (let s2 = move_to s1 (int (term_cols s1)) (int (pos_y s1) - 1) in
                    case u8_prev (take (offset s2) (buffer s2)) of
                      None \<Rightarrow> Fail UndefinedBehaviour
                    | Some (k, _) \<Rightarrow>
                        Ret (emit (take (l + k) (drop (offset s2 - k) (buffer s2))) s2))
                 else Ret (emit (drop (offset s1) (buffer s1)) s1))
             (\<lambda>s3.
                if length (line_offset s3) > max_lines s3 then
                  (if \<not> length (line_offset s3) = max_lines s3 + 1 then Fail AssertFailed
                   else
                     let s4 = s3\<lparr>max_lines := length (line_offset s3)\<rparr> in
                     if initial_row s4 + length (line_offset s4) - 1 + cur_frame_lines s4
                          > term_rows s4
                     then
                       (if \<not> length (line_offset s4) = old_nlines + 1 then Fail AssertFailed
                        else Ret (emit [0x1B, 0x5B, 0x53, 0x0D, 0x1B, 0x5B, 0x31, 0x4C]
                                    (s4\<lparr>initial_row := usub (initial_row s4) 1\<rparr>), to_print))
                     else if cur_frame_lines s4 > 0 then
                       Ret (emit [0x0A, 0x1B, 0x5B, 0x31, 0x4C] s4, to_print)
                     else Ret (s4, to_print))
                else Ret (s3, to_print))))"

text \<open>
  The scrolling view of a session that is not multiline. \<^verbatim>\<open>unsigned(0.9 * term_cols)\<close>
  and \<^verbatim>\<open>unsigned(0.1 * term_cols)\<close> are \<open>9 * term_cols div 10\<close> and \<open>term_cols div 10\<close>:
  the doubles \<open>0.9\<close> and \<open>0.1\<close> lie above the fractions by less than the rounding of the
  product, for every 32-bit \<^verbatim>\<open>term_cols\<close>.
\<close>

definition on_key_scrolling :: "handle \<Rightarrow> nat \<Rightarrow> (handle \<times> int) result" where
  "on_key_scrolling s l =
     (if initial_col s + pos_x s > max 1 (9 * term_cols s div 10) then
        (if line_offset s = [] then Fail UndefinedBehaviour
         else
           bind (offset_after_n_chars s (max 1 (term_cols s div 10)) (line_offset s ! 0))
             (\<lambda>(new_offset0, _).
                let new_offset = (if new_offset0 > offset s then offset s else new_offset0);
                    nchars2 = u8_mbsnlen (take new_offset (buffer s))
                in if \<not> nchars2 > 0 then Fail AssertFailed
                   else
                     let s1 = s\<lparr>line_offset := (line_offset s)[0 := new_offset]\<rparr>;
                         s2 = move_to s1 1 (int (initial_row s1));
                         s3 = emit [0xC2, 0xAB] s2;
                         s4 = s3\<lparr>pos_x := 1 + u8_mbsnlen (take (offset s3 - new_offset)
                                                          (drop new_offset (buffer s3)))\<rparr>
                     in bind (offset_after_n_chars s4 (usub (term_cols s4) 1) new_offset)
                          (\<lambda>(new_offset', _).
                             let to_print = int new_offset' - int (line_offset s4 ! 0)
                             in Ret (emit (take (nat to_print)
                                             (drop (line_offset s4 ! 0) (buffer s4))) s4,
                                     to_print))))
      else
        bind (offset_after_n_chars s
                (min (usub (term_cols s) (initial_col s + pos_x s)) (length (buffer s)))
                (offset s))
          (\<lambda>(new_offset, _).
             let to_print = int new_offset - int (offset s)
             in Ret (emit (take (nat to_print) (drop (offset s) (buffer s))) s, to_print)))"

text \<open>
  Overwriting at an interior position. \<^verbatim>\<open>insert(pos, 0, l - l_old)\<close> is the overload
  \<^verbatim>\<open>insert(pos, count, value)\<close> with the count \<open>0\<close>: it inserts nothing.
  \<^verbatim>\<open>erase(pos, pos + (l_old - l))\<close> is called with \<open>l_old < l\<close>: its range ends before it
  starts.
\<close>

definition on_key_overwrite :: "handle \<Rightarrow> byte list \<Rightarrow> (handle \<times> int) result" where
  "on_key_overwrite s bs =
     (let l = length bs in
      case u8_mbtoucr (drop (offset s) (buffer s)) of
        None \<Rightarrow> Fail AssertFailed
      | Some (ignore, l_old) \<Rightarrow>
          if ignore = 0xFFFD then Fail AssertFailed
          else
            bind (if l_old \<noteq> l then
                    (if int l - int l_old < 0 then
                       (if \<not> pos_y s + 1 \<le> length (line_offset s) then Fail UndefinedBehaviour
                        else Ret (s\<lparr>line_offset :=
                                     take (pos_y s + 1) (line_offset s)
                                     @ map (\<lambda>n. n + 1) (drop (pos_y s + 1) (line_offset s))\<rparr>))
                     else Fail UndefinedBehaviour)
                  else Ret s)
              (\<lambda>s1.
                 if \<not> offset s1 + l \<le> length (buffer s1) then Fail UndefinedBehaviour
                 else
                   let s2 = s1\<lparr>buffer := take (offset s1) (buffer s1) @ bs
                                          @ drop (offset s1 + l) (buffer s1)\<rparr>
                   in Ret (emit (take l (drop (offset s2) (buffer s2))) s2, int l)))"

definition on_key_insert :: "handle \<Rightarrow> int \<Rightarrow> action_result" where
  "on_key_insert s codepoint =
     (if \<not> offset s \<le> length (buffer s) then Fail AssertFailed
      else case u8_uctomb (nat (codepoint mod 2 ^ 32)) of
        None \<Rightarrow> Fail UndefinedBehaviour
      | Some bs \<Rightarrow>
          let l = length bs;
              s0 = (if buffer s = [] \<and> empty_message s \<noteq> [] then emit clear_eol s else s)
          in bind (if insert' s0 \<or> offset s0 = length (buffer s0) then
                     (let s1 = s0\<lparr>buffer := insert_at (offset s0) bs (buffer s0),
                                  nchars := nchars s0 + 1\<rparr>
                      in if multiline s1 then on_key_multiline s1 l else on_key_scrolling s1 l)
                   else on_key_overwrite s0 bs)
               (\<lambda>(s2, to_print).
                  let s3 = s2\<lparr>offset := offset s2 + l, pos_x := pos_x s2 + 1,
                              requested_pos_x := pos_x s2 + 1\<rparr>;
                      wrap = (pos_x s3 = term_cols s3);
                      s4 = (if wrap then s3\<lparr>pos_x := 0, pos_y := pos_y s3 + 1\<rparr> else s3);
                      to_print' = (if wrap then 2 else to_print)
                  in Ret (False, if to_print' > 1 then move_to_cursor s4 else s4)))"

definition mod_mask :: "nat \<Rightarrow> nat" where
  "mod_mask m = m AND (KEYMOD_ALT OR KEYMOD_SHIFT OR KEYMOD_CTRL)"

definition on_key :: "(nat \<Rightarrow> bool) \<Rightarrow> handle \<Rightarrow> TermKeyKey \<Rightarrow> action_result" where
  "on_key cat s k =
     (case k of
        KEY_UNICODE modifiers codepoint \<Rightarrow>
          if modifiers AND (KEYMOD_ALT OR KEYMOD_CTRL) = 0 then on_key_insert s codepoint
          else (case key_map_find cat (mod_mask modifiers, CODEPOINT codepoint) of
                  Some cb \<Rightarrow> cb s
                | None \<Rightarrow> Ret (False, s))
      | KEY_KEYSYM modifiers ksym \<Rightarrow>
          let was_empty = (buffer s = []) in
          (case key_map_find cat (mod_mask modifiers, SYM ksym) of
             Some cb \<Rightarrow>
               bind (cb s)
                 (\<lambda>(res, s1).
                    if \<not> was_empty \<and> buffer s1 = [] \<and> empty_message s1 \<noteq> []
                    then Ret (res, show_empty_message s1) else Ret (res, s1))
           | None \<Rightarrow> Ret (False, s))
      | KEY_OTHER modifiers \<Rightarrow> Ret (False, s))"

section \<open>Colours\<close>

text \<open>
  \<^verbatim>\<open>struct hsv_color\<close> and the two conversions. The arithmetic is that of \<^verbatim>\<open>int\<close>,
  with division towards zero, and every store into a \<^verbatim>\<open>uint8_t\<close> keeps the low eight
  bits.
\<close>

record hsv_color =
  hue :: byte
  sat :: byte
  val :: byte

definition tdiv :: "int \<Rightarrow> int \<Rightarrow> int" where
  "tdiv a d = sgn a * sgn d * (\<bar>a\<bar> div \<bar>d\<bar>)"

definition u8 :: "int \<Rightarrow> byte" where
  "u8 i = word_of_int i"

definition hsv_to_rgb :: "hsv_color \<Rightarrow> color" where
  "hsv_to_rgb hsv =
     (if sat hsv \<noteq> 0 then
        (let h = uint (hue hsv); sa = uint (sat hsv); v = uint (val hsv);
             region = u8 (h div 43);
             remainder = uint (u8 ((h - uint region * 43) * 6));
             p = u8 ((v * (255 - sa)) div 256);
             q = u8 ((v * (255 - ((sa * remainder) div 256))) div 256);
             t = u8 ((v * (255 - ((sa * (255 - remainder)) div 256))) div 256)
         in if region = 0 then \<lparr>red = val hsv, green = t, blue = p\<rparr>
            else if region = 1 then \<lparr>red = q, green = val hsv, blue = p\<rparr>
            else if region = 2 then \<lparr>red = p, green = val hsv, blue = t\<rparr>
            else if region = 3 then \<lparr>red = p, green = q, blue = val hsv\<rparr>
            else if region = 4 then \<lparr>red = t, green = p, blue = val hsv\<rparr>
            else \<lparr>red = val hsv, green = p, blue = q\<rparr>)
      else \<lparr>red = val hsv, green = val hsv, blue = val hsv\<rparr>)"

definition rgb_to_hsv :: "color \<Rightarrow> hsv_color" where
  "rgb_to_hsv rgb =
     (let rgb_min = min (red rgb) (min (green rgb) (blue rgb));
          rgb_max = max (red rgb) (max (green rgb) (blue rgb));
          d = uint rgb_max - uint rgb_min
      in if rgb_max \<noteq> 0 then
           (let sa = u8 (tdiv (255 * d) (uint rgb_max)) in
            if sa = 0 then \<lparr>hue = 0, sat = sa, val = rgb_max\<rparr>
            else if rgb_max = red rgb then
              \<lparr>hue = u8 (0 + tdiv (43 * (uint (green rgb) - uint (blue rgb))) d),
               sat = sa, val = rgb_max\<rparr>
            else if rgb_max = green rgb then
              \<lparr>hue = u8 (85 + tdiv (43 * (uint (blue rgb) - uint (red rgb))) d),
               sat = sa, val = rgb_max\<rparr>
            else
              \<lparr>hue = u8 (171 + tdiv (43 * (uint (red rgb) - uint (green rgb))) d),
               sat = sa, val = rgb_max\<rparr>)
         else \<lparr>hue = 0, sat = 0, val = rgb_max\<rparr>)"

definition adjust_rgb :: "color \<Rightarrow> color \<Rightarrow> int \<Rightarrow> color \<times> color" where
  "adjust_rgb fg bg adjust_val =
     (let hsv_fg = rgb_to_hsv fg; hsv_bg = rgb_to_hsv bg;
          fv = uint (val hsv_fg); bv = uint (val hsv_bg)
      in if (if adjust_val \<ge> 0 then bv \<ge> 128 else bv < 128) then
           (hsv_to_rgb (hsv_fg\<lparr>val := u8 (if fv > adjust_val then fv - adjust_val else 0)\<rparr>),
            hsv_to_rgb (hsv_bg\<lparr>val := u8 (bv - adjust_val)\<rparr>))
         else
           (hsv_to_rgb (hsv_fg\<lparr>val := u8 (if fv < 255 - adjust_val then fv + adjust_val else 255)\<rparr>),
            hsv_to_rgb (hsv_bg\<lparr>val := u8 (bv + adjust_val)\<rparr>)))"

section \<open>Session lifecycle\<close>

text \<open>
  What the system calls of one \<^verbatim>\<open>prepare\<close> answer: whether \<^verbatim>\<open>sigprocmask\<close> succeeds,
  the window size of \<^verbatim>\<open>ioctl(TIOCGWINSZ)\<close> as columns and rows (\<open>None\<close>: the call
  fails), the descriptor of \<^verbatim>\<open>signalfd\<close>, the two \<^verbatim>\<open>epoll_ctl\<close> calls, the reply that
  \<^verbatim>\<open>get_current_pos\<close> parses as column and row, and the string of the prompt callback.
\<close>

datatype epoll_ctl_result = CTL_OK | CTL_EPERM | CTL_OTHER

record environment =
  sigprocmask_ok :: bool
  winsize :: "(nat \<times> nat) option"
  signalfd_result :: int
  epoll_ctl_key :: epoll_ctl_result
  epoll_ctl_sig :: epoll_ctl_result
  current_pos :: "nat \<times> nat"
  callback_prompt :: "byte list"

definition update_winsize :: "(nat \<times> nat) option \<Rightarrow> nat \<times> nat" where
  "update_winsize ws = (case ws of Some (ws_col, ws_row) \<Rightarrow> (ws_col, ws_row) | None \<Rightarrow> (80, 25))"

definition osc133_L :: "byte list" where
  "osc133_L = [0x1B, 0x5D, 0x31, 0x33, 0x33, 0x3B, 0x4C, 0x07]"
definition osc133_A :: "byte list" where
  "osc133_A = [0x1B, 0x5D, 0x31, 0x33, 0x33, 0x3B, 0x41, 0x07]"
definition osc133_B :: "byte list" where
  "osc133_B = [0x1B, 0x5D, 0x31, 0x33, 0x33, 0x3B, 0x42, 0x07]"
definition osc133_C :: "byte list" where
  "osc133_C = [0x1B, 0x5D, 0x31, 0x33, 0x33, 0x3B, 0x43, 0x07]"

definition flags_none :: nat where "flags_none = 0"
definition flags_frame_line :: nat where "flags_frame_line = 1"
definition flags_frame_background :: nat where "flags_frame_background = 2"
definition flags_frame :: nat where "flags_frame = 3"

definition setup_epoll :: "environment \<Rightarrow> handle \<Rightarrow> handle result" where
  "setup_epoll env s =
     (if \<not> (term_state s = closed \<or> term_state s = open') then Fail AssertFailed
      else if term_state s = closed then
        (if \<not> sigprocmask_ok env then Fail FatalExit
         else
           let s1 = s\<lparr>old_mask_winch := winch_blocked s, winch_blocked := True\<rparr>;
               s2 = s1\<lparr>term_cols := fst (update_winsize (winsize env)),
                       term_rows := snd (update_winsize (winsize env))\<rparr>;
               s3 = s2\<lparr>sigfd := signalfd_result env\<rparr>
           in if sigfd s3 = - 1 then Fail FatalExit
              else if epoll_ctl_key env = CTL_EPERM then
                (if \<not> tk_null s3 then Fail AssertFailed else Fail NotATerminal)
              else if epoll_ctl_key env = CTL_OTHER then Fail FatalExit
              else
                let s4 = s3\<lparr>epoll_set := epoll_set s3 @ [tkfd s3], nonblock := True\<rparr>
                in if epoll_ctl_sig env \<noteq> CTL_OK then Fail FatalExit
                   else Ret (s4\<lparr>epoll_set := epoll_set s4 @ [sigfd s4],
                                term_state := open'\<rparr>))
      else Ret s)"

definition cleanup_epoll :: "handle \<Rightarrow> handle result" where
  "cleanup_epoll s =
     (if \<not> term_state s = open' then Fail AssertFailed
      else
        let s1 = (if \<not> old_mask_winch s then s\<lparr>winch_blocked := True\<rparr> else s)
        in Ret (s1\<lparr>epoll_set := filter (\<lambda>d. d \<noteq> tkfd s1 \<and> d \<noteq> sigfd s1) (epoll_set s1),
                   term_state := closed\<rparr>))"

definition finalize :: "handle \<Rightarrow> handle result" where
  "finalize s =
     (let s1 = (if text_default_fg s \<noteq> color0 then emit [0x1B, 0x5B, 0x6D] s else s);
          s2 = (if osc133 s1 then emit osc133_C s1 else s1)
      in cleanup_epoll s2)"

definition glyph_line :: "byte list" where "glyph_line = [0xE2, 0x94, 0x80]"
definition glyph_lower_half :: "byte list" where "glyph_lower_half = [0xE2, 0x96, 0x84]"
definition glyph_upper_half :: "byte list" where "glyph_upper_half = [0xE2, 0x96, 0x80]"

definition leave :: "handle \<Rightarrow> handle" where
  "leave s =
     (let frame = concat (replicate (term_cols s) glyph_line);
          part1 = (if fl s AND flags_frame = flags_frame_line
                      \<and> frame_highlight_fg s \<noteq> default_foreground (info s)
                   then move_to_buf s 0 (- 1) @ frame
                        @ move_to_buf s 0 (int (max_lines s)) @ frame
                   else []);
          part2 = (if buffer s = [] \<and> empty_message s \<noteq> []
                   then move_to_buf s (int (pos_x s)) (int (pos_y s)) @ clear_eol
                   else []);
          rows = (if fl s AND flags_frame = flags_none then int (length (line_offset s))
                  else int (max_lines s));
          part3 = move_to_buf s (int (term_cols s) - 1) (rows - 1 + int (cur_frame_lines s))
                  @ [0x0A]
      in emit (part1 @ part2 @ part3) s)"

text \<open>\<^verbatim>\<open>handle::prepare\<close>.\<close>

definition frame_rows :: "handle \<Rightarrow> byte list" where
  "frame_rows s =
     (let hl = (frame_highlight_fg s \<noteq> default_foreground (info s));
          line = (fl s AND flags_frame = flags_frame_line)
      in (if hl then sgr_fg (frame_highlight_fg s) else [])
         @ concat (replicate (term_cols s) (if line then glyph_line else glyph_lower_half))
         @ [0x0A, 0x0A]
         @ concat (replicate (term_cols s) (if line then glyph_line else glyph_upper_half))
         @ (if hl then [0x1B, 0x5B, 0x30, 0x6D] else [])
         @ [0x1B, 0x5B, 0x31, 0x46])"

definition colsel :: "handle \<Rightarrow> byte list" where
  "colsel s =
     [0x1B, 0x5B, 0x33, 0x38, 0x3B, 0x32, 0x3B]
     @ decimal (unat (red (text_default_fg s))) @ [0x3B]
     @ decimal (unat (green (text_default_fg s))) @ [0x3B]
     @ decimal (unat (blue (text_default_fg s)))
     @ [0x3B, 0x34, 0x38, 0x3B, 0x32, 0x3B]
     @ decimal (unat (red (text_default_bg s))) @ [0x3B]
     @ decimal (unat (green (text_default_bg s))) @ [0x3B]
     @ decimal (unat (blue (text_default_bg s))) @ [0x6D]"

definition prompt_string :: "environment \<Rightarrow> handle \<Rightarrow> byte list" where
  "prompt_string env s =
     (case prompt s of Literal str \<Rightarrow> str | Callback \<Rightarrow> callback_prompt env)"

text \<open>The steps of \<^verbatim>\<open>prepare\<close> after \<^verbatim>\<open>setup_epoll\<close>, in the order of the source.\<close>

definition prepare_frame :: "handle \<Rightarrow> handle" where
  "prepare_frame s1 =
     (let s2 = s1\<lparr>buffer := []\<rparr>;
          s3 = (if osc133 s2 then emit osc133_L s2 else emit [0x0D] s2)
      in if fl s3 AND flags_frame \<noteq> flags_none then
           (let s3a = (emit (frame_rows s3) s3)\<lparr>cur_frame_lines := 1\<rparr>
            in if text_default_fg s3a \<noteq> color0 then emit (colsel s3a) s3a else s3a)
         else s3\<lparr>cur_frame_lines := 0\<rparr>)"

definition prepare_position :: "environment \<Rightarrow> handle \<Rightarrow> handle" where
  "prepare_position env s4 =
     (emit [0x1B, 0x5B, 0x36, 0x6E] s4)
       \<lparr>initial_col := fst (current_pos env), initial_row := snd (current_pos env)\<rparr>"

definition prepare_reset :: "handle \<Rightarrow> handle" where
  "prepare_reset s5 =
     s5\<lparr>offset := 0, nchars := 0, pos_x := 0, pos_y := 0, line_offset := [0],
        prompt_len := 0\<rparr>"

definition prepare_prompt :: "environment \<Rightarrow> handle \<Rightarrow> handle" where
  "prepare_prompt env s6 =
     (let prompt_str = prompt_string env s6;
          s7 = s6\<lparr>prompt_len := nonescape_len prompt_str\<rparr>;
          s8 = (if prompt_str \<noteq> [] then
                  emit prompt_str (if osc133 s7 then emit osc133_A s7 else s7)
                else s7);
          s9 = (if osc133 s8 then emit osc133_B s8 else s8)
      in emit clear_eol (s9\<lparr>pos_x := prompt_len s9\<rparr>))"

definition prepare_empty_message :: "handle \<Rightarrow> handle" where
  "prepare_empty_message s10 =
     (if empty_message s10 \<noteq> [] then
        (let bg = snd (if fl s10 AND flags_frame \<noteq> flags_frame_background
                       then adjust_rgb (default_foreground (info s10))
                              (default_background (info s10)) 48
                       else adjust_rgb (text_default_fg s10) (text_default_bg s10) 48)
         in show_empty_message (s10\<lparr>empty_message_fg := bg\<rparr>))
      else s10)"

definition prepare_closed :: "environment \<Rightarrow> handle \<Rightarrow> handle result" where
  "prepare_closed env s =
     bind (setup_epoll env s)
       (\<lambda>s1.
          let s5 = prepare_position env (prepare_frame s1)
          in if \<not> initial_col s5 = 1 then Fail AssertFailed
             else
               let s6 = prepare_reset s5
               in if \<not> buffer s6 = [] then Fail AssertFailed
                  else Ret (prepare_empty_message (prepare_prompt env s6)))"

definition prepare :: "environment \<Rightarrow> handle \<Rightarrow> handle result" where
  "prepare env s =
     (if \<not> (term_state s = open' \<or> term_state s = closed) then Fail AssertFailed
      else if term_state s = closed then prepare_closed env s
      else Ret s)"

section \<open>Events\<close>

text \<open>
  One readiness event: its descriptor, the keys that \<^verbatim>\<open>termkey_getkey\<close> returns one by
  one after \<^verbatim>\<open>termkey_advisereadable\<close>, the result that is not a key after them, and what
  \<^verbatim>\<open>ioctl(TIOCGWINSZ)\<close> answers if the event is a window change.
\<close>

datatype TermKeyResult = RES_NONE | RES_EOF | RES_AGAIN | RES_ERROR

record epoll_event =
  ev_fd :: int
  ev_keys :: "TermKeyKey list"
  ev_result :: TermKeyResult
  ev_winsize :: "(nat \<times> nat) option"

definition is_cancel :: "handle \<Rightarrow> TermKeyKey \<Rightarrow> bool" where
  "is_cancel s k =
     (case k of
        KEY_UNICODE modifiers codepoint \<Rightarrow>
          modifiers = KEYMOD_CTRL
          \<and> (codepoint = 67 \<or> codepoint = 99
               \<or> (buffer s = [] \<and> (codepoint = 68 \<or> codepoint = 100)))
      | _ \<Rightarrow> False)"

text \<open>The \<^verbatim>\<open>while\<close> loop of \<^verbatim>\<open>handle_one\<close> over the decoded keys.\<close>

fun handle_keys ::
  "(nat \<Rightarrow> bool) \<Rightarrow> handle \<Rightarrow> TermKeyKey list \<Rightarrow> TermKeyResult \<Rightarrow> ((bool \<times> bool) \<times> handle) result" where
  "handle_keys cat s [] res = (if res = RES_EOF then Ret ((True, True), s) else Ret ((True, False), s))"
| "handle_keys cat s (k # ks) res =
     (if is_cancel s k then Ret ((True, True), s)
      else bind (on_key cat s k)
             (\<lambda>(committed, s1).
                if committed then Ret ((True, True), s1) else handle_keys cat s1 ks res))"

definition handle_one ::
  "(nat \<Rightarrow> bool) \<Rightarrow> handle \<Rightarrow> epoll_event \<Rightarrow> ((bool \<times> bool) \<times> handle) result" where
  "handle_one cat s epev =
     (if ev_fd epev = tkfd s then handle_keys cat s (ev_keys epev) (ev_result epev)
      else if ev_fd epev = sigfd s then
        Ret ((True, False),
             s\<lparr>term_cols := fst (update_winsize (ev_winsize epev)),
               term_rows := snd (update_winsize (ev_winsize epev))\<rparr>)
      else Ret ((False, False), s))"

text \<open>\<^verbatim>\<open>std::expected<std::string_view, bool>\<close> and \<^verbatim>\<open>handle::process\<close>.\<close>

datatype expected = Value "byte list" | Unexpected bool

definition process :: "(nat \<Rightarrow> bool) \<Rightarrow> handle \<Rightarrow> epoll_event \<Rightarrow> (expected \<times> handle) result" where
  "process cat s epev =
     bind (handle_one cat s epev)
       (\<lambda>((handled, done), s1).
          if \<not> done then Ret (Unexpected handled, s1)
          else bind (finalize s1) (\<lambda>s2. Ret (Value (buffer s2), s2)))"

text \<open>
  \<^verbatim>\<open>the_loop\<close> and \<^verbatim>\<open>handle::read\<close>, over the events that \<^verbatim>\<open>epoll_wait\<close> delivers.
  When no event is left, \<^verbatim>\<open>epoll_wait\<close> does not return.
\<close>

fun wait_loop :: "(nat \<Rightarrow> bool) \<Rightarrow> handle \<Rightarrow> epoll_event list \<Rightarrow> handle result" where
  "wait_loop cat s [] = Diverge"
| "wait_loop cat s (epev # evs) =
     bind (handle_one cat s epev)
       (\<lambda>((handled, done), s1). if done then Ret s1 else wait_loop cat s1 evs)"

definition the_loop :: "(nat \<Rightarrow> bool) \<Rightarrow> environment \<Rightarrow> handle \<Rightarrow> epoll_event list \<Rightarrow> handle result" where
  "the_loop cat env s evs =
     bind (prepare env s)
       (\<lambda>s1. bind (wait_loop cat s1 evs) (\<lambda>s2. finalize (leave s2)))"

definition read :: "(nat \<Rightarrow> bool) \<Rightarrow> environment \<Rightarrow> handle \<Rightarrow> epoll_event list \<Rightarrow> (byte list \<times> handle) result" where
  "read cat env s evs = bind (the_loop cat env s evs) (\<lambda>s1. Ret (buffer s1, s1))"

section \<open>Construction\<close>

text \<open>
  The two constructors with the default member initialisers of \<^verbatim>\<open>struct handle\<close>, and
  \<^verbatim>\<open>init_state\<close>. \<open>info\<close> is what \<^verbatim>\<open>terminal::info::alloc\<close> detects, the key decoder
  reads the descriptor \<^verbatim>\<open>fd\<close> itself, and \<open>epfd'\<close> is the descriptor of
  \<^verbatim>\<open>epoll_create1\<close> or the one of the caller.
\<close>

definition init_state :: "handle \<Rightarrow> handle" where
  "init_state s =
     (let s1 = (if fl s AND flags_frame = flags_frame_background then
                  (let fgbg = adjust_rgb (default_foreground (info s))
                                (default_background (info s)) 32
                   in s\<lparr>frame_highlight_fg := snd fgbg, text_default_fg := fst fgbg,
                        text_default_bg := snd fgbg\<rparr>)
                else s)
      in s1\<lparr>osc133 := scroll_markers (info s1), term_state := closed\<rparr>)"

definition members :: "terminal_info \<Rightarrow> int \<Rightarrow> int \<Rightarrow> nat \<Rightarrow> bool \<Rightarrow> handle" where
  "members ti epfd' fd' fl' ext =
     \<lparr>buffer = [], line_offset = [0], max_lines = 1, prompt = Literal [],
      empty_message = [], empty_message_fg = color0, fd = fd', fl = fl',
      term_state = invalid, info = ti, term_rows = 0, term_cols = 0, cur_frame_lines = 0,
      frame_highlight_fg = default_foreground ti, text_default_fg = color0,
      text_default_bg = color0, tk_null = False, tkfd = fd', old_mask_winch = False,
      sigfd = - 1, epfd = epfd', extern_epfd = ext, multiline = True, insert' = True,
      osc133 = False, initial_col = 0, initial_row = 0, offset = 0, nchars = 0, pos_x = 0,
      requested_pos_x = 0, pos_y = 0, prompt_len = 0, tty = [], winch_blocked = False,
      nonblock = False, epoll_set = []\<rparr>"

definition new_handle :: "terminal_info \<Rightarrow> int \<Rightarrow> int \<Rightarrow> nat \<Rightarrow> handle result" where
  "new_handle ti epoll_create1 fd' fl' =
     (if epoll_create1 = - 1 then Fail FatalExit
      else Ret (init_state (members ti epoll_create1 fd' fl' False)))"

definition new_handle_extern :: "terminal_info \<Rightarrow> int \<Rightarrow> int \<Rightarrow> nat \<Rightarrow> handle" where
  "new_handle_extern ti epfd' fd' fl' = init_state (members ti epfd' fd' fl' True)"

definition set_prompt :: "byte list \<Rightarrow> handle \<Rightarrow> handle" where
  "set_prompt str s = s\<lparr>prompt := Literal str\<rparr>"

definition set_prompt_callback :: "handle \<Rightarrow> handle" where
  "set_prompt_callback s = s\<lparr>prompt := Callback\<rparr>"

section \<open>A session to run\<close>

text \<open>
  A terminal of 20 columns and 10 rows without scroll markers, the prompt \<open>> \<close>, a
  borrowed multiplexer, and the states that the keys of the scenarios lead to. On ASCII
  the word class is the letters and the digits.
\<close>

definition ascii_word :: "nat \<Rightarrow> bool" where
  "ascii_word uc =
     ((48 \<le> uc \<and> uc \<le> 57) \<or> (65 \<le> uc \<and> uc \<le> 90) \<or> (97 \<le> uc \<and> uc \<le> 122))"

definition demo_info :: terminal_info where
  "demo_info = \<lparr>default_foreground = \<lparr>red = 200, green = 200, blue = 200\<rparr>,
                 default_background = color0, scroll_markers = False\<rparr>"

definition demo_env :: environment where
  "demo_env = \<lparr>sigprocmask_ok = True, winsize = Some (20, 10), signalfd_result = 5,
                epoll_ctl_key = CTL_OK, epoll_ctl_sig = CTL_OK, current_pos = (1, 3),
                callback_prompt = []\<rparr>"

definition demo_handle :: handle where
  "demo_handle = set_prompt [0x3E, 0x20] (new_handle_extern demo_info 4 0 0)"

text \<open>
  The open session with the given buffer, line offsets, offset, \<^verbatim>\<open>nchars\<close>, cursor
  column, requested column, cursor row, insert mode, \<^verbatim>\<open>max_lines\<close> and the bytes
  written after the prompt.
\<close>

definition demo_state ::
  "byte list \<Rightarrow> nat list \<Rightarrow> nat \<Rightarrow> nat \<Rightarrow> nat \<Rightarrow> nat \<Rightarrow> nat \<Rightarrow> bool \<Rightarrow> nat \<Rightarrow> byte list \<Rightarrow> handle" where
  "demo_state buf lo offs nch px rpx py ins ml written =
     \<lparr>buffer = buf, line_offset = lo, max_lines = ml, prompt = Literal [0x3E, 0x20],
      empty_message = [], empty_message_fg = color0, fd = 0, fl = 0,
      term_state = open', info = demo_info, term_rows = 10, term_cols = 20,
      cur_frame_lines = 0, frame_highlight_fg = \<lparr>red = 200, green = 200, blue = 200\<rparr>,
      text_default_fg = color0, text_default_bg = color0, tk_null = False, tkfd = 0,
      old_mask_winch = False, sigfd = 5, epfd = 4, extern_epfd = True, multiline = True,
      insert' = ins, osc133 = False, initial_col = 1, initial_row = 3, offset = offs,
      nchars = nch, pos_x = px, requested_pos_x = rpx, pos_y = py, prompt_len = 2,
      tty = [13, 27, 91, 54, 110, 62, 32, 27, 91, 75] @ written, winch_blocked = True,
      nonblock = True, epoll_set = [0, 5]\<rparr>"

definition demo_prepared :: handle where
  "demo_prepared = demo_state [] [0] 0 0 2 0 0 True 1 []"

definition typed :: "int list \<Rightarrow> TermKeyKey list" where
  "typed cs = map (KEY_UNICODE 0) cs"

text \<open>After \<open>hello\<close>, and after \<open>hello\<close> and Home.\<close>

definition demo_hello :: handle where
  "demo_hello = demo_state [104, 101, 108, 108, 111] [0] 5 5 7 7 0 True 1
                  [104, 101, 108, 108, 111]"

definition demo_hello_home :: handle where
  "demo_hello_home = demo_state [104, 101, 108, 108, 111] [0] 0 5 2 7 0 True 1
                       [104, 101, 108, 108, 111, 27, 91, 51, 59, 51, 72]"

text \<open>After \<open>caf\<close>, \<open>U+00E9\<close>, Left and Insert: overwrite mode, the cursor before the last character.\<close>

definition demo_cafe :: handle where
  "demo_cafe = demo_state [99, 97, 102, 195, 169] [0] 3 4 5 5 0 False 1
                 [99, 97, 102, 195, 169, 27, 91, 51, 59, 55, 72, 27, 91, 51, 59, 54, 72]"

text \<open>After \<open>cafe\<close>, Left and Insert.\<close>

definition demo_cafe_ascii :: handle where
  "demo_cafe_ascii = demo_state [99, 97, 102, 101] [0] 3 4 5 5 0 False 1
                       [99, 97, 102, 101, 27, 91, 51, 59, 54, 72]"

text \<open>After \<open>a b\<close> and Home.\<close>

definition demo_a_b :: handle where
  "demo_a_b = demo_state [97, 32, 98] [0] 0 3 2 5 0 True 1
                [97, 32, 98, 27, 91, 51, 59, 51, 72]"

text \<open>After \<open>a\<close>.\<close>

definition demo_a :: handle where
  "demo_a = demo_state [97] [0] 1 1 3 3 0 True 1 [97]"

text \<open>
  After \<open>U+00E9\<close>, eighteen \<open>a\<close>, Home and Insert: two rows, overwrite mode, the cursor on
  the two-byte character at the start.
\<close>

definition demo_two_rows :: handle where
  "demo_two_rows = demo_state ([195, 169] @ replicate 18 97) [0, 19] 0 19 2 1 0 False 2
     ([195, 169, 27, 91, 51, 59, 52, 72] @ replicate 17 97
      @ [27, 91, 52, 59, 49, 72, 27, 91, 51, 59, 50, 49, 72, 97, 97,
         27, 91, 51, 59, 51, 72])"

text \<open>
  The forward-word motion in the words of the specification: the first position after
  the cursor that is the end of the buffer, or where the character that ends there is in
  the word class and the character that starts there is not.
\<close>

definition spec_word_end :: "(nat \<Rightarrow> bool) \<Rightarrow> byte list \<Rightarrow> nat \<Rightarrow> bool" where
  "spec_word_end cat buf p =
     (p = length buf
      \<or> ((case u8_prev (take p buf) of Some (k, uc) \<Rightarrow> cat uc | None \<Rightarrow> False)
         \<and> (case u8_mbtoucr (drop p buf) of Some (uc, l) \<Rightarrow> \<not> cat uc | None \<Rightarrow> False)))"

definition spec_forward_word :: "(nat \<Rightarrow> bool) \<Rightarrow> byte list \<Rightarrow> nat \<Rightarrow> nat option" where
  "spec_forward_word cat buf offs = find (spec_word_end cat buf) [offs + 1 ..< length buf + 1]"

section \<open>What a key leaves alone\<close>

text \<open>
  The fields that no key changes: a key changes the buffer, the line offsets, the cursor,
  \<^verbatim>\<open>max_lines\<close>, \<^verbatim>\<open>insert\<close>, \<^verbatim>\<open>initial_row\<close> and the terminal output only.
\<close>

definition session_of where
  "session_of s =
     ((term_state s, term_cols s, term_rows s, prompt_len s, multiline s),
      (tkfd s, sigfd s, fd s, fl s, epfd s, extern_epfd s, tk_null s),
      (prompt s, empty_message s, empty_message_fg s, info s, cur_frame_lines s),
      (frame_highlight_fg s, text_default_fg s, text_default_bg s, osc133 s, initial_col s),
      (old_mask_winch s, winch_blocked s, nonblock s, epoll_set s))"

section \<open>Line offsets in the words of the specification\<close>

text \<open>
  A code point boundary of the glossary: the index of a byte that is not a continuation
  byte, or the end of the buffer.
\<close>

definition cp_boundary :: "byte list \<Rightarrow> nat \<Rightarrow> bool" where
  "cp_boundary buf i = (i = length buf \<or> (i < length buf \<and> \<not> is_cont (buf ! i)))"

text \<open>The characters of a well-formed byte string.\<close>

function chars :: "byte list \<Rightarrow> byte list list" where
  "chars bs =
     (if bs = [] then []
      else case u8_mbtoucr bs of
             None \<Rightarrow> [bs]
           | Some (uc, l) \<Rightarrow> take l bs # chars (drop l bs))"
  by pat_completeness auto
termination
  by (relation "measure length") (auto dest: u8_mbtoucr_len)

declare chars.simps [simp del]

text \<open>The number of bytes of the first \<open>n\<close> characters.\<close>

definition adv :: "nat \<Rightarrow> byte list \<Rightarrow> nat" where
  "adv n bs = length (concat (take n (chars bs)))"

text \<open>
  The breaks as the claim words them, from the offset \<open>ofs\<close> with the characters \<open>cs\<close>
  that follow it: consume \<open>avail\<close> code points; stop when fewer than \<open>avail\<close> remain;
  otherwise append the new break offset and go on with \<open>avail = term_cols\<close>. With
  \<open>term_cols = 0\<close> these words name no result, and the definition stops.
\<close>

function claimed_rows :: "nat \<Rightarrow> nat \<Rightarrow> nat \<Rightarrow> byte list list \<Rightarrow> nat list" where
  "claimed_rows cols avail ofs cs =
     (if length cs < avail \<or> cols = 0 then []
      else (ofs + length (concat (take avail cs)))
           # claimed_rows cols cols (ofs + length (concat (take avail cs))) (drop avail cs))"
  by pat_completeness auto
termination
  by (relation "measure (\<lambda>(cols, avail, ofs, cs). 2 * length cs + (if avail = 0 then 1 else 0))")
     auto

declare claimed_rows.simps [simp del]

text \<open>The same with the guard of the loop: it also stops at the end of the buffer.\<close>

function spec_rows :: "nat \<Rightarrow> nat \<Rightarrow> nat \<Rightarrow> byte list list \<Rightarrow> nat list" where
  "spec_rows cols avail ofs cs =
     (if cs = [] \<or> length cs < avail \<or> cols = 0 then []
      else (ofs + length (concat (take avail cs)))
           # spec_rows cols cols (ofs + length (concat (take avail cs))) (drop avail cs))"
  by pat_completeness auto
termination
  by (relation "measure (\<lambda>(cols, avail, ofs, cs). 2 * length cs + (if avail = 0 then 1 else 0))")
     auto

declare spec_rows.simps [simp del]

text \<open>\<^verbatim>\<open>avail\<close> at the start of \<^verbatim>\<open>recompute_line_offset\<close>.\<close>

definition avail_of :: "handle \<Rightarrow> nat \<Rightarrow> nat" where
  "avail_of s r = usub (term_cols s) (if r = 0 then prompt_len s else 0)"

text \<open>A window of two columns, as wide as the prompt, and an empty buffer.\<close>

definition demo_narrow :: handle where
  "demo_narrow = demo_prepared\<lparr>term_cols := 2\<rparr>"

section \<open>Facts about bytes\<close>


lemma byte_cases: "(b::byte) \<in> set (map word_of_nat [0..<256])"
proof -
  have "b = word_of_nat (unat b)" by simp
  moreover have "unat b < 256" using unsigned_less[of b] by simp
  ultimately show ?thesis
    by (metis (no_types) atLeast0LessThan image_eqI lessThan_iff list.set_map set_upt)
qed

lemma is_cont_iff: "is_cont b = (0x80 \<le> b \<and> b < 0xC0)"
proof -
  have "\<forall>b \<in> set (map word_of_nat [0..<256]). ((b::byte) AND 0xC0 = 0x80) = (0x80 \<le> b \<and> b < 0xC0)"
    by code_simp
  then show ?thesis unfolding is_cont_def using byte_cases by blast
qed

lemma nonescape_loop_cont:
  "\<forall>b \<in> set cs. is_cont b \<Longrightarrow> nonescape_loop False res (cs @ sv) = nonescape_loop False res sv"
proof (induction cs arbitrary: res)
  case Nil
  then show ?case by simp
next
  case (Cons c cs)
  then have "is_cont c" by simp
  then have "c \<noteq> 0x1B" "c AND 0xC0 = 0x80"
    by (auto simp: is_cont_def)
  with Cons show ?case by simp
qed

lemma u8_mbtoucr_shape:
  assumes "u8_mbtoucr bs = Some (uc, l)"
  shows "\<exists>c cs. take l bs = c # cs \<and> \<not> is_cont c \<and> (\<forall>b \<in> set cs. is_cont b)"
proof (cases bs)
  case Nil
  with assms show ?thesis by simp
next
  case (Cons c s)
  have nc: "\<not> is_cont c" if "c < 0x80 \<or> 0xC2 \<le> c"
    using that by (auto simp: is_cont_iff word_le_nat_alt word_less_nat_alt)
  from assms Cons show ?thesis
    by (auto split: if_splits list.splits simp: nc not_less)
qed

lemma nonescape_loop_valid:
  "valid_utf8 bs \<Longrightarrow> 0x1B \<notin> set bs \<Longrightarrow> nonescape_loop False res bs = res + u8_mbsnlen bs"
proof (induction bs arbitrary: res rule: valid_utf8.induct)
  case (1 bs)
  show ?case
  proof (cases "bs = []")
    case True
    then show ?thesis by (simp add: u8_mbsnlen.simps)
  next
    case False
    with "1.prems"(1) obtain uc l where dec: "u8_mbtoucr bs = Some (uc, l)"
      and v: "valid_utf8 (drop l bs)"
      by (subst (asm) valid_utf8.simps) (auto split: option.splits)
    from u8_mbtoucr_shape[OF dec] obtain c cs where
      tk: "take l bs = c # cs" and nc: "\<not> is_cont c" and cc: "\<forall>b \<in> set cs. is_cont b"
      by blast
    have bs: "bs = c # (cs @ drop l bs)"
      using tk by (metis append_Cons append_take_drop_id)
    have esc: "0x1B \<notin> set (drop l bs)" "c \<noteq> 0x1B"
      using "1.prems"(2) bs by (metis in_set_dropD, metis list.set_intros(1))
    have IH: "nonescape_loop False (res + 1) (drop l bs) = res + 1 + u8_mbsnlen (drop l bs)"
      using "1.IH"[OF False dec refl v esc(1)] by simp
    have "nonescape_loop False res bs = nonescape_loop False (res + 1) (cs @ drop l bs)"
      using nc esc(2) by (subst bs) (simp add: is_cont_def)
    also have "\<dots> = nonescape_loop False (res + 1) (drop l bs)"
      using cc by (rule nonescape_loop_cont)
    finally have "nonescape_loop False res bs = res + 1 + u8_mbsnlen (drop l bs)"
      using IH by simp
    moreover have "u8_mbsnlen bs = Suc (u8_mbsnlen (drop l bs))"
      using dec False by (subst u8_mbsnlen.simps) simp
    ultimately show ?thesis by simp
  qed
qed

section \<open>The demo session is reached by the model\<close>

lemma demo_prepare: "prepare demo_env demo_handle = Ret demo_prepared"
  by code_simp

lemma demo_hello_reached:
  "handle_keys ascii_word demo_prepared (typed [104, 101, 108, 108, 111]) RES_NONE
   = Ret ((True, False), demo_hello)"
  by code_simp

lemma demo_hello_home_reached:
  "handle_keys ascii_word demo_hello [KEY_KEYSYM 0 SYM_HOME] RES_NONE
   = Ret ((True, False), demo_hello_home)"
  by code_simp

lemma demo_cafe_reached:
  "handle_keys ascii_word demo_prepared
     (typed [99, 97, 102, 233] @ [KEY_KEYSYM 0 SYM_LEFT, KEY_KEYSYM 0 SYM_INSERT]) RES_NONE
   = Ret ((True, False), demo_cafe)"
  by code_simp

lemma demo_a_b_reached:
  "handle_keys ascii_word demo_prepared (typed [97, 32, 98] @ [KEY_KEYSYM 0 SYM_HOME]) RES_NONE
   = Ret ((True, False), demo_a_b)"
  by code_simp

lemma demo_a_reached:
  "handle_keys ascii_word demo_prepared (typed [97]) RES_NONE = Ret ((True, False), demo_a)"
  by code_simp

lemma demo_cafe_ascii_reached:
  "handle_keys ascii_word demo_prepared
     (typed [99, 97, 102, 101] @ [KEY_KEYSYM 0 SYM_LEFT, KEY_KEYSYM 0 SYM_INSERT]) RES_NONE
   = Ret ((True, False), demo_cafe_ascii)"
  by code_simp

lemma demo_two_rows_reached:
  "handle_keys ascii_word demo_prepared
     (typed (233 # replicate 18 97) @ [KEY_KEYSYM 0 SYM_HOME, KEY_KEYSYM 0 SYM_INSERT]) RES_NONE
   = Ret ((True, False), demo_two_rows)"
  by code_simp

text \<open>The definitions that a key on a state of the demo session unfolds.\<close>

lemmas eval_key =
  on_key_def on_key_insert_def on_key_overwrite_def u8_uctomb_def KEYMOD_ALT_def
  KEYMOD_CTRL_def KEYMOD_SHIFT_def mod_mask_def bind_def Let_def emit_def is_cont_def
  cont_val_def demo_state_def move_to_cursor_def move_to_def move_to_buf_def uadd_int_def
  decimal.simps key_map_find_def key_map_def

section \<open>Facts about the lifecycle and the dispatch\<close>

lemma setup_epoll_fields:
  "setup_epoll env s = Ret s1 \<Longrightarrow> term_state s = closed \<Longrightarrow>
   term_state s1 = open' \<and> tty s1 = tty s \<and> prompt s1 = prompt s"
  unfolding setup_epoll_def Let_def by (simp split: if_split_asm) auto

lemma prepare_frame_fields:
  "term_state (prepare_frame s) = term_state s \<and> prompt (prepare_frame s) = prompt s
   \<and> buffer (prepare_frame s) = [] \<and> (\<exists>a. tty (prepare_frame s) = tty s @ a)"
  unfolding prepare_frame_def Let_def emit_def by simp

lemma prepare_position_fields:
  "term_state (prepare_position env s) = term_state s
   \<and> prompt (prepare_position env s) = prompt s
   \<and> buffer (prepare_position env s) = buffer s
   \<and> (\<exists>a. tty (prepare_position env s) = tty s @ a)"
  unfolding prepare_position_def emit_def by simp

lemma prepare_reset_fields:
  "term_state (prepare_reset s) = term_state s \<and> prompt (prepare_reset s) = prompt s
   \<and> buffer (prepare_reset s) = buffer s \<and> tty (prepare_reset s) = tty s
   \<and> offset (prepare_reset s) = 0 \<and> nchars (prepare_reset s) = 0
   \<and> pos_y (prepare_reset s) = 0 \<and> line_offset (prepare_reset s) = [0]"
  unfolding prepare_reset_def by simp

lemma prepare_prompt_fields:
  "term_state (prepare_prompt env s) = term_state s
   \<and> buffer (prepare_prompt env s) = buffer s
   \<and> offset (prepare_prompt env s) = offset s \<and> nchars (prepare_prompt env s) = nchars s
   \<and> pos_y (prepare_prompt env s) = pos_y s
   \<and> line_offset (prepare_prompt env s) = line_offset s
   \<and> prompt_len (prepare_prompt env s) = nonescape_len (prompt_string env s)
   \<and> pos_x (prepare_prompt env s) = nonescape_len (prompt_string env s)
   \<and> (\<exists>a b. tty (prepare_prompt env s) = tty s @ a @ prompt_string env s @ b)"
  unfolding prepare_prompt_def Let_def emit_def by auto

lemma prepare_empty_message_fields:
  "term_state (prepare_empty_message s) = term_state s
   \<and> buffer (prepare_empty_message s) = buffer s
   \<and> offset (prepare_empty_message s) = offset s \<and> nchars (prepare_empty_message s) = nchars s
   \<and> pos_y (prepare_empty_message s) = pos_y s \<and> pos_x (prepare_empty_message s) = pos_x s
   \<and> line_offset (prepare_empty_message s) = line_offset s
   \<and> prompt_len (prepare_empty_message s) = prompt_len s
   \<and> (\<exists>a. tty (prepare_empty_message s) = tty s @ a)"
  unfolding prepare_empty_message_def Let_def show_empty_message_def emit_def by simp

lemma prepare_closed_fields:
  assumes "prepare_closed env s = Ret s'" "term_state s = closed"
  shows "term_state s' = open' \<and> buffer s' = [] \<and> offset s' = 0 \<and> nchars s' = 0
     \<and> pos_y s' = 0 \<and> line_offset s' = [0]
     \<and> prompt_len s' = nonescape_len (prompt_string env s) \<and> pos_x s' = prompt_len s'
     \<and> (\<exists>a b. tty s' = tty s @ a @ prompt_string env s @ b)"
proof -
  from assms(1) obtain s1 where s1: "setup_epoll env s = Ret s1"
    by (auto simp: prepare_closed_def bind_def split: result.splits)
  define s4 where "s4 = prepare_frame s1"
  define s5 where "s5 = prepare_position env s4"
  define s6 where "s6 = prepare_reset s5"
  define s10 where "s10 = prepare_prompt env s6"
  from assms(1) s1 have s': "s' = prepare_empty_message s10"
    by (simp add: prepare_closed_def bind_def Let_def s4_def s5_def s6_def s10_def
        split: if_split_asm)
  note f1 = setup_epoll_fields[OF s1 assms(2)]
  note f4 = prepare_frame_fields[of s1, folded s4_def]
  note f5 = prepare_position_fields[of env s4, folded s5_def]
  note f6 = prepare_reset_fields[of s5, folded s6_def]
  note f10 = prepare_prompt_fields[of env s6, folded s10_def]
  note f11 = prepare_empty_message_fields[of s10, folded s']
  have p: "prompt_string env s6 = prompt_string env s"
    using f1 f4 f5 f6 by (simp add: prompt_string_def)
  from f4 f5 f6 f10 f11 f1 obtain a1 a2 a3 a4 a5 where
    "tty s' = ((((tty s @ a1) @ a2) @ a3 @ prompt_string env s6 @ a4) @ a5)"
    by (metis append.assoc)
  then have "tty s' = tty s @ (a1 @ a2 @ a3) @ prompt_string env s @ (a4 @ a5)"
    using p by simp
  then have t: "\<exists>a b. tty s' = tty s @ a @ prompt_string env s @ b"
    by blast
  from f1 f4 f5 f6 f10 f11 p t show ?thesis by simp
qed

lemmas keymods = KEYMOD_ALT_def KEYMOD_CTRL_def KEYMOD_SHIFT_def mod_mask_def

lemma find_simps:
  "key_map_find cat (mod_mask 0, SYM SYM_LEFT) = Some cb_backward_char"
  "key_map_find cat (mod_mask 0, SYM SYM_RIGHT) = Some cb_forward_char"
  "key_map_find cat (mod_mask 0, SYM SYM_UP) = Some cb_previous_screen_line"
  "key_map_find cat (mod_mask 0, SYM SYM_DOWN) = Some cb_next_screen_line"
  "key_map_find cat (mod_mask 0, SYM SYM_BACKSPACE) = Some cb_backspace"
  "key_map_find cat (mod_mask 0, SYM SYM_DELETE) = Some cb_delete"
  "key_map_find cat (mod_mask KEYMOD_ALT, CODEPOINT 98) = Some (cb_backward_word cat)"
  "key_map_find cat (mod_mask KEYMOD_ALT, CODEPOINT 102) = Some (cb_forward_word cat)"
  "key_map_find cat (mod_mask KEYMOD_CTRL, CODEPOINT 117) = Some cb_unix_line_discard"
  "key_map_find cat (mod_mask KEYMOD_CTRL, CODEPOINT 107) = Some cb_kill_line"
  by (simp_all add: key_map_find_def key_map_def keymods)

lemma keysym_noop:
  "key_map_find cat (mod_mask m, SYM k) = Some cb \<Longrightarrow> cb s = Ret (False, s)
   \<Longrightarrow> on_key cat s (KEY_KEYSYM m k) = Ret (False, s)"
  by (auto simp: on_key_def bind_def)

lemma unicode_noop:
  "m AND (KEYMOD_ALT OR KEYMOD_CTRL) \<noteq> 0 \<Longrightarrow>
   key_map_find cat (mod_mask m, CODEPOINT c) = Some cb \<Longrightarrow> cb s = Ret (False, s)
   \<Longrightarrow> on_key cat s (KEY_UNICODE m c) = Ret (False, s)"
  by (simp add: on_key_def)

section \<open>Keys keep the session\<close>

lemma session_of_upd [simp]:
  "session_of (s\<lparr>buffer := a1\<rparr>) = session_of s"
  "session_of (s\<lparr>line_offset := a2\<rparr>) = session_of s"
  "session_of (s\<lparr>max_lines := a3\<rparr>) = session_of s"
  "session_of (s\<lparr>insert' := a4\<rparr>) = session_of s"
  "session_of (s\<lparr>initial_row := a5\<rparr>) = session_of s"
  "session_of (s\<lparr>offset := a6\<rparr>) = session_of s"
  "session_of (s\<lparr>nchars := a7\<rparr>) = session_of s"
  "session_of (s\<lparr>pos_x := a8\<rparr>) = session_of s"
  "session_of (s\<lparr>requested_pos_x := a9\<rparr>) = session_of s"
  "session_of (s\<lparr>pos_y := a10\<rparr>) = session_of s"
  "session_of (s\<lparr>tty := a11\<rparr>) = session_of s"
  by (simp_all add: session_of_def)

lemma session_of_emit [simp]:
  "session_of (emit bs s) = session_of s"
  "session_of (move_to s x y) = session_of s"
  "session_of (move_to_cursor s) = session_of s"
  "session_of (redraw_tail s) = session_of s"
  "session_of (show_empty_message s) = session_of s"
  by (simp_all add: emit_def move_to_def move_to_cursor_def redraw_tail_def
      show_empty_message_def Let_def)

lemma session_of_if:
  "session_of (if c then x else y) = (if c then session_of x else session_of y)"
  by simp

lemma recompute_session:
  "recompute_line_offset s r = Ret s' \<Longrightarrow> \<exists>lo. s' = s\<lparr>line_offset := lo\<rparr>"
  by (auto simp: recompute_line_offset_def Let_def split: option.splits result.splits)

lemma bindE:
  assumes "bind m f = Ret y"
  obtains x where "m = Ret x" "f x = Ret y"
  using assms by (cases m) (auto simp: bind_def)

lemma cb_simple_session:
  "cb_beginning_of_line s = Ret (b, s') \<Longrightarrow> session_of s' = session_of s"
  "cb_end_of_line s = Ret (b, s') \<Longrightarrow> session_of s' = session_of s"
  "cb_insert s = Ret (b, s') \<Longrightarrow> session_of s' = session_of s"
  "cb_enter s = Ret (b, s') \<Longrightarrow> session_of s' = session_of s"
  by (auto simp: cb_beginning_of_line_def cb_end_of_line_def cb_insert_def cb_enter_def Let_def
      split: if_split_asm)

lemma cb_backward_char_session:
  "cb_backward_char s = Ret (b, s') \<Longrightarrow> session_of s' = session_of s"
  by (auto simp: cb_backward_char_def Let_def split: if_split_asm option.split_asm)

lemma cb_forward_char_session:
  "cb_forward_char s = Ret (b, s') \<Longrightarrow> session_of s' = session_of s"
  by (auto simp: cb_forward_char_def Let_def split: if_split_asm option.split_asm)

lemma cb_screen_line_session:
  "cb_previous_screen_line s = Ret (b, s') \<Longrightarrow> session_of s' = session_of s"
  "cb_next_screen_line s = Ret (b, s') \<Longrightarrow> session_of s' = session_of s"
  by (auto simp: cb_previous_screen_line_def cb_next_screen_line_def Let_def
      elim!: bindE split: if_split_asm option.split_asm)

lemma recompute_session_of:
  "recompute_line_offset s r = Ret s' \<Longrightarrow> session_of s' = session_of s"
  by (auto dest: recompute_session)

lemma cb_backspace_session:
  "cb_backspace s = Ret (b, s') \<Longrightarrow> session_of s' = session_of s"
  by (auto simp: cb_backspace_def Let_def
      elim!: bindE dest!: recompute_session_of cb_backward_char_session split: if_split_asm)

lemma cb_delete_session:
  "cb_delete s = Ret (b, s') \<Longrightarrow> session_of s' = session_of s"
  by (auto simp: cb_delete_def Let_def
      elim!: bindE dest!: recompute_session_of split: if_split_asm option.split_asm)

lemma word_finish_session:
  "word_finish s = Ret (b, s') \<Longrightarrow> session_of s' = session_of s"
  by (auto simp: word_finish_def Let_def split: if_split_asm)

lemma cb_word_session:
  "cb_backward_word cat s = Ret (b, s') \<Longrightarrow> session_of s' = session_of s"
  "cb_forward_word cat s = Ret (b, s') \<Longrightarrow> session_of s' = session_of s"
  by (auto simp: cb_backward_word_def cb_forward_word_def Let_def
      elim!: bindE dest!: word_finish_session split: if_split_asm option.split_asm prod.split_asm)

lemma cb_discard_session:
  "cb_unix_line_discard s = Ret (b, s') \<Longrightarrow> session_of s' = session_of s"
  "cb_kill_line s = Ret (b, s') \<Longrightarrow> session_of s' = session_of s"
  by (auto simp: cb_unix_line_discard_def cb_kill_line_def Let_def
      elim!: bindE dest!: recompute_session_of split: if_split_asm)

lemma on_key_multiline_session:
  "on_key_multiline s l = Ret (s', tp) \<Longrightarrow> session_of s' = session_of s"
  by (auto simp: on_key_multiline_def Let_def
      elim!: bindE dest!: recompute_session_of split: if_split_asm option.split_asm)

lemma on_key_scrolling_session:
  "on_key_scrolling s l = Ret (s', tp) \<Longrightarrow> session_of s' = session_of s"
  by (auto simp: on_key_scrolling_def Let_def
      elim!: bindE split: if_split_asm option.split_asm)

lemma on_key_overwrite_session:
  "on_key_overwrite s bs = Ret (s', tp) \<Longrightarrow> session_of s' = session_of s"
  by (auto simp: on_key_overwrite_def Let_def
      elim!: bindE split: if_split_asm option.split_asm)

lemma on_key_insert_session:
  "on_key_insert s c = Ret (b, s') \<Longrightarrow> session_of s' = session_of s"
  by (auto simp: on_key_insert_def Let_def
      elim!: bindE dest!: on_key_multiline_session on_key_scrolling_session
        on_key_overwrite_session
      split: if_split_asm option.split_asm)

lemma key_map_session:
  "key_map_find cat k = Some cb \<Longrightarrow> cb s = Ret (b, s') \<Longrightarrow> session_of s' = session_of s"
  by (auto simp: key_map_find_def key_map_def split: if_split_asm
      dest: cb_simple_session cb_backward_char_session cb_forward_char_session
        cb_screen_line_session cb_backspace_session cb_delete_session cb_word_session
        cb_discard_session)

lemma on_key_session:
  "on_key cat s k = Ret (b, s') \<Longrightarrow> session_of s' = session_of s"
  by (auto simp: on_key_def Let_def elim!: bindE
      dest: on_key_insert_session
      split: TermKeyKey.split_asm if_split_asm option.split_asm)
     (blast dest: key_map_session)+

lemma handle_keys_session:
  "handle_keys cat s ks res = Ret (r, s') \<Longrightarrow> session_of s' = session_of s"
proof (induction ks arbitrary: s)
  case Nil
  then show ?case by (auto split: if_split_asm)
next
  case (Cons k ks)
  then show ?case
    by (auto elim!: bindE split: if_split_asm dest: on_key_session)
qed

lemma finalize_open:
  "term_state s = open' \<Longrightarrow>
   \<exists>s'. finalize s = Ret s' \<and> buffer s' = buffer s \<and> term_state s' = closed"
  by (simp add: finalize_def cleanup_epoll_def Let_def emit_def)

lemma cancel_handle_keys:
  "is_cancel s k \<Longrightarrow> handle_keys cat s (k # ks) res = Ret ((True, True), s)"
  by simp

lemma demo_a_ctrl_c:
  "process ascii_word demo_a
     \<lparr>ev_fd = 0, ev_keys = [KEY_UNICODE KEYMOD_CTRL 99], ev_result = RES_NONE,
      ev_winsize = None\<rparr>
   = Ret (Value [97], demo_a\<lparr>epoll_set := [], term_state := closed\<rparr>)"
  by code_simp

lemma handle_keys_handled:
  "handle_keys cat s ks res = Ret ((h, d), s') \<Longrightarrow> h"
proof (induction ks arbitrary: s)
  case Nil
  then show ?case by (auto split: if_split_asm)
next
  case (Cons k ks)
  then show ?case
    by (auto elim!: bindE split: if_split_asm)
qed

lemma session_term_state: "session_of s' = session_of s \<Longrightarrow> term_state s' = term_state s"
  by (simp add: session_of_def)

section \<open>Well-formed buffers and the line offsets\<close>

lemma byte_lt_iff: "((x::byte) < y) = (unat x < unat y)"
  by (rule word_less_nat_alt)

lemma byte_le_iff: "((x::byte) \<le> y) = (unat x \<le> unat y)"
  by (rule word_le_nat_alt)

lemma u8_mbtoucr_step:
  assumes "u8_mbtoucr (c # s) = Some (uc, l)"
  shows "utf8_step c = l \<and> (c < 0x80 \<or> (c AND 0xC0 \<noteq> 0x80 \<and> c < 0xF8))"
proof -
  have nc: "c AND 0xC0 \<noteq> 0x80" if "0xC2 \<le> c"
    using that is_cont_iff[of c] by (auto simp: is_cont_def byte_le_iff byte_lt_iff)
  from assms show ?thesis
    by (auto simp: utf8_step_def nc not_less byte_le_iff byte_lt_iff
        split: if_split_asm list.split_asm)
qed

lemma u8_mbtoucr_append:
  "u8_mbtoucr bs = Some (uc, l) \<Longrightarrow> u8_mbtoucr (take l bs @ ys) = Some (uc, l)"
  by (cases bs) (auto split: if_split_asm list.split_asm)

lemma valid_utf8_Nil [simp]: "valid_utf8 []"
  by (simp add: valid_utf8.simps)

lemma chars_Nil [simp]: "chars [] = []"
  by (simp add: chars.simps)

lemma valid_step:
  assumes "valid_utf8 bs" "bs \<noteq> []"
  obtains uc l where "u8_mbtoucr bs = Some (uc, l)" "valid_utf8 (drop l bs)"
    "chars bs = take l bs # chars (drop l bs)" "0 < l" "l \<le> length bs"
proof -
  from assms obtain uc l where d: "u8_mbtoucr bs = Some (uc, l)" and v: "valid_utf8 (drop l bs)"
    by (subst (asm) valid_utf8.simps) (auto split: option.splits)
  have "chars bs = take l bs # chars (drop l bs)"
    using d assms(2) by (subst chars.simps) simp
  with d v u8_mbtoucr_len[OF d] that show ?thesis by blast
qed

lemma valid_utf8_char_append:
  assumes "u8_mbtoucr bs = Some (uc, l)" "valid_utf8 ys"
  shows "valid_utf8 (take l bs @ ys)"
proof -
  have l: "0 < l" "l \<le> length bs" using u8_mbtoucr_len[OF assms(1)] by auto
  then have "take l bs @ ys \<noteq> []" by auto
  moreover have "drop l (take l bs @ ys) = ys" using l by simp
  ultimately show ?thesis
    using u8_mbtoucr_append[OF assms(1), of ys] assms(2)
    by (subst valid_utf8.simps) simp
qed

lemma valid_utf8_append: "valid_utf8 xs \<Longrightarrow> valid_utf8 ys \<Longrightarrow> valid_utf8 (xs @ ys)"
proof (induction xs rule: valid_utf8.induct)
  case (1 bs)
  show ?case
  proof (cases "bs = []")
    case True
    with 1 show ?thesis by simp
  next
    case False
    from valid_step[OF "1.prems"(1) False] obtain uc l where
      d: "u8_mbtoucr bs = Some (uc, l)" and v: "valid_utf8 (drop l bs)" and l: "0 < l" "l \<le> length bs"
      by metis
    have "valid_utf8 (drop l bs @ ys)"
      using "1.IH"[OF False d refl v "1.prems"(2)] .
    from valid_utf8_char_append[OF d this] show ?thesis
      by (metis append.assoc append_take_drop_id)
  qed
qed

lemma cont_after_lead:
  assumes "u8_mbtoucr bs = Some (uc, l)" "0 < i" "i < l"
  shows "is_cont (bs ! i)"
proof -
  from u8_mbtoucr_shape[OF assms(1)] obtain c cs where
    t: "take l bs = c # cs" and cc: "\<forall>b \<in> set cs. is_cont b" by blast
  have "bs ! i = (take l bs) ! i" using assms(3) by simp
  also have "\<dots> = cs ! (i - 1)" using t assms(2) by simp
  finally have e: "bs ! i = cs ! (i - 1)" .
  have "length (take l bs) = l" using u8_mbtoucr_len[OF assms(1)] by simp
  then have "length cs = l - 1" using t by (metis length_Cons diff_Suc_1)
  then have "i - 1 < length cs" using assms(2,3) by simp
  with cc e show ?thesis by simp
qed

lemma boundary_valid:
  "valid_utf8 bs \<Longrightarrow> cp_boundary bs i \<Longrightarrow> valid_utf8 (take i bs) \<and> valid_utf8 (drop i bs)"
proof (induction bs arbitrary: i rule: valid_utf8.induct)
  case (1 bs)
  show ?case
  proof (cases "bs = [] \<or> i = 0")
    case True
    with 1 show ?thesis by auto
  next
    case False
    then have ne: "bs \<noteq> []" and i0: "0 < i" by auto
    from valid_step[OF "1.prems"(1) ne] obtain uc l where
      d: "u8_mbtoucr bs = Some (uc, l)" and v: "valid_utf8 (drop l bs)" and l: "0 < l" "l \<le> length bs"
      by metis
    have il: "l \<le> i"
    proof (rule ccontr)
      assume "\<not> l \<le> i"
      then have "i < l" by simp
      from cont_after_lead[OF d i0 this] "1.prems"(2) l \<open>i < l\<close> show False
        by (auto simp: cp_boundary_def)
    qed
    have b: "cp_boundary (drop l bs) (i - l)"
      using "1.prems"(2) il l by (auto simp: cp_boundary_def)
    from "1.IH"[OF ne d refl v b] have
      IH: "valid_utf8 (take (i - l) (drop l bs))" "valid_utf8 (drop (i - l) (drop l bs))" by auto
    have t: "take i bs = take l bs @ take (i - l) (drop l bs)"
      using il by (metis le_add_diff_inverse take_add)
    have "valid_utf8 (take i bs)"
      unfolding t using valid_utf8_char_append[OF d IH(1)] .
    moreover have "valid_utf8 (drop i bs)"
      using IH(2) il by simp
    ultimately show ?thesis by simp
  qed
qed

lemma adv_0 [simp]: "adv 0 bs = 0"
  by (simp add: adv_def)

lemma adv_Nil [simp]: "adv n [] = 0"
  by (simp add: adv_def)

lemma offset_after_n_valid:
  "offs \<le> length buf \<Longrightarrow> valid_utf8 (drop offs buf) \<Longrightarrow>
   offset_after_n_loop buf (cnt + n) offs cnt
   = Ret (offs + adv n (drop offs buf), cnt + min n (length (chars (drop offs buf))))"
proof (induction n arbitrary: offs cnt)
  case 0
  then show ?case by (simp add: offset_after_n_loop.simps)
next
  case (Suc n)
  show ?case
  proof (cases "offs < length buf")
    case False
    with Suc.prems have "drop offs buf = []" by simp
    with False show ?thesis by (simp add: offset_after_n_loop.simps)
  next
    case True
    then have ne: "drop offs buf \<noteq> []" by simp
    from valid_step[OF Suc.prems(2) ne] obtain uc l where
      d: "u8_mbtoucr (drop offs buf) = Some (uc, l)"
      and v: "valid_utf8 (drop l (drop offs buf))"
      and c: "chars (drop offs buf) = take l (drop offs buf) # chars (drop l (drop offs buf))"
      and l: "0 < l" "l \<le> length (drop offs buf)"
      by metis
    have hd: "drop offs buf = buf ! offs # drop (Suc offs) buf"
      using True by (simp add: Cons_nth_drop_Suc)
    from d have st: "utf8_step (buf ! offs) = l"
      and as: "buf ! offs < 0x80 \<or> ((buf ! offs) AND 0xC0 \<noteq> 0x80 \<and> buf ! offs < 0xF8)"
      using u8_mbtoucr_step[of "buf ! offs" "drop (Suc offs) buf" uc l] hd by auto
    have le: "offs + l \<le> length buf" using l by simp
    have dd: "drop l (drop offs buf) = drop (offs + l) buf" by (simp add: add.commute)
    have IH: "offset_after_n_loop buf (Suc cnt + n) (offs + l) (Suc cnt)
       = Ret (offs + l + adv n (drop (offs + l) buf),
              Suc cnt + min n (length (chars (drop (offs + l) buf))))"
      using Suc.IH[OF le, of "Suc cnt"] v dd by simp
    have a: "adv (Suc n) (drop offs buf) = l + adv n (drop (offs + l) buf)"
      using c l dd by (simp add: adv_def)
    have "offset_after_n_loop buf (cnt + Suc n) offs cnt
        = offset_after_n_loop buf (cnt + Suc n) (offs + l) (cnt + 1)"
      using True st as le by (subst offset_after_n_loop.simps) auto
    also have "\<dots> = Ret (offs + l + adv n (drop (offs + l) buf),
              Suc cnt + min n (length (chars (drop (offs + l) buf))))"
      using IH by simp
    finally show ?thesis
      using a c dd by simp
  qed
qed

lemma offset_after_n_valid0:
  "offs \<le> length buf \<Longrightarrow> valid_utf8 (drop offs buf) \<Longrightarrow>
   offset_after_n_loop buf n offs 0
   = Ret (offs + adv n (drop offs buf), min n (length (chars (drop offs buf))))"
  using offset_after_n_valid[of offs buf 0 n] by simp

lemma chars_eq_Nil: "valid_utf8 bs \<Longrightarrow> (chars bs = []) = (bs = [])"
  by (cases "bs = []") (auto elim: valid_step)

lemma adv_valid:
  "valid_utf8 bs \<Longrightarrow>
   adv n bs \<le> length bs \<and> valid_utf8 (drop (adv n bs) bs)
   \<and> chars (drop (adv n bs) bs) = drop n (chars bs)"
proof (induction n arbitrary: bs)
  case 0
  then show ?case by simp
next
  case (Suc n)
  show ?case
  proof (cases "bs = []")
    case True
    then show ?thesis by simp
  next
    case False
    from valid_step[OF Suc.prems False] obtain uc l where
      v: "valid_utf8 (drop l bs)" and c: "chars bs = take l bs # chars (drop l bs)"
      and l: "0 < l" "l \<le> length bs"
      by metis
    have a: "adv (Suc n) bs = l + adv n (drop l bs)"
      using c l by (simp add: adv_def)
    from Suc.IH[OF v] have IH: "adv n (drop l bs) \<le> length (drop l bs)"
      "valid_utf8 (drop (adv n (drop l bs)) (drop l bs))"
      "chars (drop (adv n (drop l bs)) (drop l bs)) = drop n (chars (drop l bs))"
      by auto
    have dd: "drop (adv (Suc n) bs) bs = drop (adv n (drop l bs)) (drop l bs)"
      by (simp add: a add.commute)
    show ?thesis
      unfolding dd using IH a c l by simp
  qed
qed

lemma recompute_loop_spec:
  "0 < cols \<Longrightarrow> offs \<le> length buf \<Longrightarrow> valid_utf8 (drop offs buf) \<Longrightarrow>
   cs = chars (drop offs buf) \<Longrightarrow>
   recompute_loop buf cols offs avail lo = Some (Ret (lo @ spec_rows cols avail offs cs))"
proof (induction cols avail offs cs arbitrary: lo rule: spec_rows.induct)
  case (1 cols avail ofs cs)
  note v = "1.prems"(3) and le = "1.prems"(2) and cs = "1.prems"(4)
  show ?case
  proof (cases "ofs < length buf")
    case False
    with le have "drop ofs buf = []" by simp
    with cs have "cs = []" by simp
    with False show ?thesis
      by (subst recompute_loop.simps) (simp add: spec_rows.simps)
  next
    case True
    then have "drop ofs buf \<noteq> []" by simp
    with v cs have ne: "cs \<noteq> []" by (simp add: chars_eq_Nil)
    note oa = offset_after_n_valid0[OF le v, of avail, folded cs]
    show ?thesis
    proof (cases "length cs < avail")
      case True
      with \<open>ofs < length buf\<close> oa show ?thesis
        by (subst recompute_loop.simps) (simp add: spec_rows.simps[of cols avail ofs cs])
    next
      case False
      let ?next = "ofs + length (concat (take avail cs))"
      have nx: "?next = ofs + adv avail (drop ofs buf)"
        by (simp add: adv_def cs)
      from adv_valid[OF v, of avail] have
        a: "adv avail (drop ofs buf) \<le> length (drop ofs buf)"
        "valid_utf8 (drop (adv avail (drop ofs buf)) (drop ofs buf))"
        "chars (drop (adv avail (drop ofs buf)) (drop ofs buf)) = drop avail cs"
        using cs by auto
      have dd: "drop (adv avail (drop ofs buf)) (drop ofs buf) = drop ?next buf"
        by (simp add: nx add.commute)
      have c: "\<not> (cs = [] \<or> length cs < avail \<or> cols = 0)"
        using ne False "1.prems"(1) by simp
      have nle: "?next \<le> length buf"
        using a(1) \<open>ofs < length buf\<close> nx by simp
      have IH: "recompute_loop buf cols ?next cols (lo @ [?next])
          = Some (Ret ((lo @ [?next]) @ spec_rows cols cols ?next (drop avail cs)))"
        using "1.IH"[OF c "1.prems"(1) nle, of "lo @ [?next]"] a dd by simp
      have "recompute_loop buf cols ofs avail lo
          = recompute_loop buf cols ?next cols (lo @ [?next])"
        using \<open>ofs < length buf\<close> oa False nx by (subst recompute_loop.simps) simp
      with IH c show ?thesis
        by (simp add: spec_rows.simps[of cols avail ofs cs])
    qed
  qed
qed

lemma resize_within: "r < length xs \<Longrightarrow> resize (r + 1) xs = take (r + 1) xs"
  by (simp add: resize_def)

section \<open>The claims\<close>

text \<open>
  C8. For every byte string \<open>x\<close> that is well-formed UTF-8 and contains no ESC byte
  (\<open>0x1b\<close>), \<^verbatim>\<open>nonescape_len\<close> returns the number of code points of \<open>x\<close>.
\<close>

theorem nonescape_len_no_escape:
  "valid_utf8 x \<Longrightarrow> 0x1B \<notin> set x \<Longrightarrow> nonescape_len x = u8_mbsnlen x"
  by (simp add: nonescape_len_def nonescape_loop_valid)

theorem nonescape_len_no_escape_witness:
  "valid_utf8 [0x63, 0x61, 0x66, 0xC3, 0xA9] \<and> 0x1B \<notin> set [0x63, 0x61, 0x66, 0xC3, 0xA9 :: byte]
   \<and> nonescape_len [0x63, 0x61, 0x66, 0xC3, 0xA9] = u8_mbsnlen [0x63, 0x61, 0x66, 0xC3, 0xA9]
   \<and> nonescape_len [0x63, 0x61, 0x66, 0xC3, 0xA9] = 4"
proof -
  have v: "valid_utf8 [0x63, 0x61, 0x66, 0xC3, 0xA9]"
    by (simp add: valid_utf8.simps is_cont_def)
  have e: "0x1B \<notin> set [0x63, 0x61, 0x66, 0xC3, 0xA9 :: byte]"
    by simp
  have n: "nonescape_len [0x63, 0x61, 0x66, 0xC3, 0xA9] = 4"
    by (simp add: nonescape_len_def)
  show ?thesis
    using nonescape_len_no_escape [OF v e] v e n by simp
qed

text \<open>
  C7. \<^verbatim>\<open>prepare\<close> on a session that is already open returns the state as it is, terminal
  output included. Only from the closed state does it set the session up: the session is
  open afterwards, the editing state is reset, the prompt has been written to the
  terminal, and a further \<^verbatim>\<open>prepare\<close> changes nothing.
\<close>

theorem prepare_only_from_closed:
  "(term_state s = open' \<longrightarrow> prepare env s = Ret s)
   \<and> (term_state s = closed \<longrightarrow> prepare env s = Ret s' \<longrightarrow>
        term_state s' = open' \<and> buffer s' = [] \<and> offset s' = 0 \<and> nchars s' = 0
        \<and> pos_y s' = 0 \<and> line_offset s' = [0]
        \<and> prompt_len s' = nonescape_len (prompt_string env s) \<and> pos_x s' = prompt_len s'
        \<and> (\<exists>a b. tty s' = tty s @ a @ prompt_string env s @ b)
        \<and> prepare env' s' = Ret s')"
proof -
  have A: "prepare env s = Ret s" if "term_state s = open'"
    using that by (simp add: prepare_def)
  have B: "term_state s' = open' \<and> buffer s' = [] \<and> offset s' = 0 \<and> nchars s' = 0
        \<and> pos_y s' = 0 \<and> line_offset s' = [0]
        \<and> prompt_len s' = nonescape_len (prompt_string env s) \<and> pos_x s' = prompt_len s'
        \<and> (\<exists>a b. tty s' = tty s @ a @ prompt_string env s @ b)
        \<and> prepare env' s' = Ret s'"
    if c: "term_state s = closed" and p: "prepare env s = Ret s'"
  proof -
    from c p have "prepare_closed env s = Ret s'" by (simp add: prepare_def)
    from prepare_closed_fields[OF this c] show ?thesis
      by (simp add: prepare_def)
  qed
  from A B show ?thesis by blast
qed

theorem prepare_only_from_closed_witness:
  "term_state demo_prepared = open' \<and> prepare demo_env demo_prepared = Ret demo_prepared
   \<and> term_state demo_handle = closed \<and> prepare demo_env demo_handle = Ret demo_prepared
   \<and> tty demo_prepared = tty demo_handle @ [13, 27, 91, 54, 110] @ [0x3E, 0x20] @ [27, 91, 75]
   \<and> offset demo_prepared = 0 \<and> line_offset demo_prepared = [0] \<and> pos_x demo_prepared = 2"
proof -
  have o: "term_state demo_prepared = open'"
    by code_simp
  have c: "term_state demo_handle = closed"
    by code_simp
  have t: "tty demo_prepared = tty demo_handle @ [13, 27, 91, 54, 110] @ [0x3E, 0x20] @ [27, 91, 75]"
    by code_simp
  have f: "offset demo_prepared = 0 \<and> line_offset demo_prepared = [0] \<and> pos_x demo_prepared = 2"
    by code_simp
  from prepare_only_from_closed [of demo_prepared demo_env demo_prepared demo_env] o
    prepare_only_from_closed [of demo_handle demo_env demo_prepared demo_env] c demo_prepare t f
  show ?thesis by simp
qed

text \<open>
  C9. An edit action at its boundary changes nothing and writes nothing: backward-char,
  backspace, backward-word and line-discard at offset \<open>0\<close>; forward-char, delete and
  kill-to-end at the end of the buffer; previous-screen-line on row \<open>0\<close> and
  next-screen-line on the last row. Each key returns the state it was given.
\<close>

theorem boundary_actions_are_noops:
  "(offset s = 0 \<longrightarrow>
      on_key cat s (KEY_KEYSYM 0 SYM_LEFT) = Ret (False, s)
    \<and> on_key cat s (KEY_KEYSYM 0 SYM_BACKSPACE) = Ret (False, s)
    \<and> on_key cat s (KEY_UNICODE KEYMOD_ALT 98) = Ret (False, s)
    \<and> on_key cat s (KEY_UNICODE KEYMOD_CTRL 117) = Ret (False, s))
   \<and> (offset s = length (buffer s) \<longrightarrow>
      on_key cat s (KEY_KEYSYM 0 SYM_RIGHT) = Ret (False, s)
    \<and> on_key cat s (KEY_KEYSYM 0 SYM_DELETE) = Ret (False, s)
    \<and> on_key cat s (KEY_UNICODE KEYMOD_CTRL 107) = Ret (False, s))
   \<and> (pos_y s = 0 \<longrightarrow> on_key cat s (KEY_KEYSYM 0 SYM_UP) = Ret (False, s))
   \<and> (pos_y s + 1 = length (line_offset s) \<longrightarrow>
      on_key cat s (KEY_KEYSYM 0 SYM_DOWN) = Ret (False, s))"
proof -
  have alt: "KEYMOD_ALT AND (KEYMOD_ALT OR KEYMOD_CTRL) \<noteq> 0"
    and ctrl: "KEYMOD_CTRL AND (KEYMOD_ALT OR KEYMOD_CTRL) \<noteq> 0"
    by (simp_all add: keymods)
  have at_start: "on_key cat s (KEY_KEYSYM 0 SYM_LEFT) = Ret (False, s)"
    "on_key cat s (KEY_KEYSYM 0 SYM_BACKSPACE) = Ret (False, s)"
    "on_key cat s (KEY_UNICODE KEYMOD_ALT 98) = Ret (False, s)"
    "on_key cat s (KEY_UNICODE KEYMOD_CTRL 117) = Ret (False, s)" if "offset s = 0"
    using that
    by (auto intro!: keysym_noop unicode_noop alt ctrl
          simp: find_simps cb_backward_char_def cb_backspace_def cb_backward_word_def
            cb_unix_line_discard_def)
  have at_end: "on_key cat s (KEY_KEYSYM 0 SYM_RIGHT) = Ret (False, s)"
    "on_key cat s (KEY_KEYSYM 0 SYM_DELETE) = Ret (False, s)"
    "on_key cat s (KEY_UNICODE KEYMOD_CTRL 107) = Ret (False, s)" if "offset s = length (buffer s)"
    using that
    by (auto intro!: keysym_noop unicode_noop alt ctrl
          simp: find_simps cb_forward_char_def cb_delete_def cb_kill_line_def)
  have up: "on_key cat s (KEY_KEYSYM 0 SYM_UP) = Ret (False, s)" if "pos_y s = 0"
    using that by (auto intro!: keysym_noop simp: find_simps cb_previous_screen_line_def)
  have down: "on_key cat s (KEY_KEYSYM 0 SYM_DOWN) = Ret (False, s)"
    if "pos_y s + 1 = length (line_offset s)"
    using that by (auto intro!: keysym_noop simp: find_simps cb_next_screen_line_def)
  from at_start at_end up down show ?thesis by blast
qed

theorem boundary_actions_are_noops_witness:
  "offset demo_hello_home = 0 \<and> buffer demo_hello_home \<noteq> []
   \<and> on_key ascii_word demo_hello_home (KEY_KEYSYM 0 SYM_LEFT) = Ret (False, demo_hello_home)
   \<and> on_key ascii_word demo_hello_home (KEY_KEYSYM 0 SYM_BACKSPACE) = Ret (False, demo_hello_home)
   \<and> on_key ascii_word demo_hello_home (KEY_UNICODE KEYMOD_ALT 98) = Ret (False, demo_hello_home)
   \<and> on_key ascii_word demo_hello_home (KEY_UNICODE KEYMOD_CTRL 117) = Ret (False, demo_hello_home)
   \<and> pos_y demo_hello_home = 0
   \<and> on_key ascii_word demo_hello_home (KEY_KEYSYM 0 SYM_UP) = Ret (False, demo_hello_home)
   \<and> offset demo_hello = length (buffer demo_hello)
   \<and> on_key ascii_word demo_hello (KEY_KEYSYM 0 SYM_RIGHT) = Ret (False, demo_hello)
   \<and> on_key ascii_word demo_hello (KEY_KEYSYM 0 SYM_DELETE) = Ret (False, demo_hello)
   \<and> on_key ascii_word demo_hello (KEY_UNICODE KEYMOD_CTRL 107) = Ret (False, demo_hello)
   \<and> pos_y demo_hello + 1 = length (line_offset demo_hello)
   \<and> on_key ascii_word demo_hello (KEY_KEYSYM 0 SYM_DOWN) = Ret (False, demo_hello)"
proof -
  have h: "offset demo_hello_home = 0" "buffer demo_hello_home \<noteq> []"
    "pos_y demo_hello_home = 0" "offset demo_hello = length (buffer demo_hello)"
    "pos_y demo_hello + 1 = length (line_offset demo_hello)"
    by code_simp+
  from boundary_actions_are_noops [of demo_hello_home ascii_word]
    boundary_actions_are_noops [of demo_hello ascii_word] h
  show ?thesis by simp
qed

text \<open>
  C1, as the claim states it: every Ctrl-C key, and every Ctrl-D key on an empty buffer,
  delivers the empty line. It fails: after \<open>a\<close> has been typed, Ctrl-C delivers \<open>a\<close>.
\<close>

theorem cancel_line_not_always_empty:
  "\<not> (\<forall>cat s ev c ks.
        term_state s = open' \<longrightarrow> ev_fd ev = tkfd s \<longrightarrow>
        ev_keys ev = KEY_UNICODE KEYMOD_CTRL c # ks \<longrightarrow>
        c \<in> {67, 99} \<or> (buffer s = [] \<and> c \<in> {68, 100}) \<longrightarrow>
        (\<exists>s'. process cat s ev = Ret (Value [], s')))"
proof
  assume all: "\<forall>cat s ev c ks.
        term_state s = open' \<longrightarrow> ev_fd ev = tkfd s \<longrightarrow>
        ev_keys ev = KEY_UNICODE KEYMOD_CTRL c # ks \<longrightarrow>
        c \<in> {67, 99} \<or> (buffer s = [] \<and> c \<in> {68, 100}) \<longrightarrow>
        (\<exists>s'. process cat s ev = Ret (Value [], s'))"
  let ?ev = "\<lparr>ev_fd = 0, ev_keys = [KEY_UNICODE KEYMOD_CTRL 99], ev_result = RES_NONE,
              ev_winsize = None\<rparr>"
  have a: "term_state demo_a = open'" "ev_fd ?ev = tkfd demo_a"
    by code_simp+
  have "\<exists>s'. process ascii_word demo_a ?ev = Ret (Value [], s')"
    using all [rule_format, of demo_a ?ev 99 "[]" ascii_word] a by simp
  then show False
    by (simp add: demo_a_ctrl_c)
qed

text \<open>
  C1, amended. In an open session a Ctrl-C key, and a Ctrl-D key while the buffer is
  empty, commits the edit, and the line that \<^verbatim>\<open>process\<close> and \<^verbatim>\<open>read\<close> deliver is the
  buffer as it is at the keypress: what has been typed for Ctrl-C, the empty line for
  Ctrl-D.
\<close>

theorem cancel_commits_current_buffer:
  assumes "term_state s = open'" and "ev_fd ev = tkfd s"
    and "ev_keys ev = KEY_UNICODE KEYMOD_CTRL c # ks"
    and "c \<in> {67, 99} \<or> (buffer s = [] \<and> c \<in> {68, 100})"
  shows "(\<exists>s'. process cat s ev = Ret (Value (buffer s), s') \<and> term_state s' = closed
             \<and> buffer s' = buffer s)
       \<and> (\<exists>s'. read cat env s (ev # evs) = Ret (buffer s, s') \<and> term_state s' = closed)"
proof -
  from assms(4) have "is_cancel s (KEY_UNICODE KEYMOD_CTRL c)"
    by (auto simp: is_cancel_def)
  with assms(2,3) have h: "handle_one cat s ev = Ret ((True, True), s)"
    by (simp add: handle_one_def)
  from finalize_open[OF assms(1)] obtain s' where
    f: "finalize s = Ret s'" "buffer s' = buffer s" "term_state s' = closed" by blast
  have p: "process cat s ev = Ret (Value (buffer s), s')"
    using h f by (simp add: process_def bind_def)
  have l: "term_state (leave s) = open'" "buffer (leave s) = buffer s"
    using assms(1) by (simp_all add: leave_def Let_def emit_def)
  from finalize_open[OF l(1)] obtain s'' where
    f': "finalize (leave s) = Ret s''" "buffer s'' = buffer (leave s)" "term_state s'' = closed"
    by blast
  have "read cat env s (ev # evs) = Ret (buffer s, s'')"
    using assms(1) h f' l by (simp add: read_def the_loop_def prepare_def bind_def)
  with p f f' show ?thesis by blast
qed

theorem cancel_commits_current_buffer_witness:
  "(\<exists>s'. process ascii_word demo_a
            \<lparr>ev_fd = 0, ev_keys = [KEY_UNICODE KEYMOD_CTRL 99], ev_result = RES_NONE,
             ev_winsize = None\<rparr> = Ret (Value (buffer demo_a), s') \<and> term_state s' = closed
          \<and> buffer s' = buffer demo_a)
   \<and> (\<exists>s'. read ascii_word demo_env demo_a
            [\<lparr>ev_fd = 0, ev_keys = [KEY_UNICODE KEYMOD_CTRL 99], ev_result = RES_NONE,
              ev_winsize = None\<rparr>] = Ret (buffer demo_a, s') \<and> term_state s' = closed)
   \<and> (\<exists>s'. process ascii_word demo_prepared
            \<lparr>ev_fd = 0, ev_keys = [KEY_UNICODE KEYMOD_CTRL 100], ev_result = RES_NONE,
             ev_winsize = None\<rparr> = Ret (Value [], s'))"
proof -
  have a: "term_state demo_a = open'" "tkfd demo_a = 0" "(99::int) \<in> {67, 99}"
    by code_simp+
  have b: "term_state demo_prepared = open'" "tkfd demo_prepared = 0"
    "buffer demo_prepared = []" "(100::int) \<in> {68, 100}"
    by code_simp+
  from cancel_commits_current_buffer [of demo_a
      "\<lparr>ev_fd = 0, ev_keys = [KEY_UNICODE KEYMOD_CTRL 99], ev_result = RES_NONE, ev_winsize = None\<rparr>"
      99 "[]" ascii_word demo_env "[]"]
    cancel_commits_current_buffer [of demo_prepared
      "\<lparr>ev_fd = 0, ev_keys = [KEY_UNICODE KEYMOD_CTRL 100], ev_result = RES_NONE, ev_winsize = None\<rparr>"
      100 "[]" ascii_word demo_env "[]"]
    a b
  show ?thesis by simp blast
qed

text \<open>
  C6. \<^verbatim>\<open>process\<close> has three outcomes. An event of a descriptor that is neither the key
  descriptor nor the signal descriptor returns \<open>unexpected(false)\<close> and the state as it
  is. An event of the signal descriptor returns \<open>unexpected(true)\<close>. An event of the key
  descriptor is handled, and in an open session it returns the buffer as the line when
  \<^verbatim>\<open>handle_one\<close> reports a commit, and \<open>unexpected(true)\<close> otherwise; with no key
  decoded the commit is the end of input, and a cancelling key or a key whose action
  returns \<open>true\<close> commits.
\<close>

theorem process_three_outcomes:
  "(ev_fd ev \<noteq> tkfd s \<and> ev_fd ev \<noteq> sigfd s \<longrightarrow> process cat s ev = Ret (Unexpected False, s))
   \<and> (ev_fd ev \<noteq> tkfd s \<and> ev_fd ev = sigfd s \<longrightarrow>
        process cat s ev = Ret (Unexpected True,
          s\<lparr>term_cols := fst (update_winsize (ev_winsize ev)),
            term_rows := snd (update_winsize (ev_winsize ev))\<rparr>))
   \<and> (ev_fd ev = tkfd s \<and> term_state s = open' \<and> handle_one cat s ev = Ret ((h, d), s1) \<longrightarrow>
        h \<and> (if d then \<exists>s2. process cat s ev = Ret (Value (buffer s1), s2)
                          \<and> buffer s2 = buffer s1 \<and> term_state s2 = closed
             else process cat s ev = Ret (Unexpected True, s1)))
   \<and> (ev_fd ev = tkfd s \<and> ev_keys ev = [] \<longrightarrow>
        handle_one cat s ev = Ret ((True, ev_result ev = RES_EOF), s))
   \<and> (ev_fd ev = tkfd s \<and> ev_keys ev = k # ks \<and> (is_cancel s k \<or> on_key cat s k = Ret (True, s1))
        \<longrightarrow> (\<exists>s2. handle_one cat s ev = Ret ((True, True), s2)))"
proof -
  have A: "process cat s ev = Ret (Unexpected False, s)"
    if "ev_fd ev \<noteq> tkfd s \<and> ev_fd ev \<noteq> sigfd s"
    using that by (simp add: process_def handle_one_def bind_def)
  have B: "process cat s ev = Ret (Unexpected True,
          s\<lparr>term_cols := fst (update_winsize (ev_winsize ev)),
            term_rows := snd (update_winsize (ev_winsize ev))\<rparr>)"
    if "ev_fd ev \<noteq> tkfd s \<and> ev_fd ev = sigfd s"
    using that by (simp add: process_def handle_one_def bind_def)
  have C: "h \<and> (if d then \<exists>s2. process cat s ev = Ret (Value (buffer s1), s2)
                          \<and> buffer s2 = buffer s1 \<and> term_state s2 = closed
             else process cat s ev = Ret (Unexpected True, s1))"
    if c: "ev_fd ev = tkfd s \<and> term_state s = open' \<and> handle_one cat s ev = Ret ((h, d), s1)"
  proof -
    from c have hk: "handle_keys cat s (ev_keys ev) (ev_result ev) = Ret ((h, d), s1)"
      by (auto simp: handle_one_def)
    then have h by (rule handle_keys_handled)
    from hk have "term_state s1 = open'"
      using c by (auto dest!: handle_keys_session session_term_state)
    from finalize_open[OF this] obtain s2 where
      "finalize s1 = Ret s2" "buffer s2 = buffer s1" "term_state s2 = closed" by blast
    with c \<open>h\<close> show ?thesis
      by (auto simp: process_def bind_def)
  qed
  have D: "handle_one cat s ev = Ret ((True, ev_result ev = RES_EOF), s)"
    if "ev_fd ev = tkfd s \<and> ev_keys ev = []"
    using that by (simp add: handle_one_def)
  have E: "\<exists>s2. handle_one cat s ev = Ret ((True, True), s2)"
    if "ev_fd ev = tkfd s \<and> ev_keys ev = k # ks \<and> (is_cancel s k \<or> on_key cat s k = Ret (True, s1))"
    using that by (auto simp: handle_one_def bind_def)
  from A B C D E show ?thesis by blast
qed

theorem process_three_outcomes_witness:
  "process ascii_word demo_a
     \<lparr>ev_fd = 9, ev_keys = [], ev_result = RES_NONE, ev_winsize = None\<rparr>
   = Ret (Unexpected False, demo_a)
   \<and> process ascii_word demo_a
       \<lparr>ev_fd = 5, ev_keys = [], ev_result = RES_NONE, ev_winsize = Some (30, 12)\<rparr>
     = Ret (Unexpected True, demo_a\<lparr>term_cols := 30, term_rows := 12\<rparr>)
   \<and> (\<exists>s2. process ascii_word demo_a
             \<lparr>ev_fd = 0, ev_keys = [KEY_KEYSYM 0 SYM_ENTER], ev_result = RES_NONE,
              ev_winsize = None\<rparr> = Ret (Value [97], s2))
   \<and> process ascii_word demo_prepared
       \<lparr>ev_fd = 0, ev_keys = typed [97], ev_result = RES_NONE, ev_winsize = None\<rparr>
     = Ret (Unexpected True, demo_a)
   \<and> (\<exists>s2. process ascii_word demo_a
             \<lparr>ev_fd = 0, ev_keys = [], ev_result = RES_EOF, ev_winsize = None\<rparr>
           = Ret (Value [97], s2))"
proof -
  let ?e1 = "\<lparr>ev_fd = 9, ev_keys = [], ev_result = RES_NONE, ev_winsize = None\<rparr>"
  let ?e2 = "\<lparr>ev_fd = 5, ev_keys = [], ev_result = RES_NONE, ev_winsize = Some (30, 12)\<rparr>"
  let ?e3 = "\<lparr>ev_fd = 0, ev_keys = [KEY_KEYSYM 0 SYM_ENTER], ev_result = RES_NONE,
              ev_winsize = None\<rparr>"
  let ?e4 = "\<lparr>ev_fd = 0, ev_keys = typed [97], ev_result = RES_NONE, ev_winsize = None\<rparr>"
  let ?e5 = "\<lparr>ev_fd = 0, ev_keys = [], ev_result = RES_EOF, ev_winsize = None\<rparr>"
  have f: "tkfd demo_a = 0" "sigfd demo_a = 5" "term_state demo_a = open'"
    "tkfd demo_prepared = 0" "term_state demo_prepared = open'" "buffer demo_a = [97]"
    "update_winsize (Some (30, 12)) = (30, 12)"
    by code_simp+
  have h3: "handle_one ascii_word demo_a ?e3 = Ret ((True, True), demo_a)"
    by code_simp
  have h4: "handle_one ascii_word demo_prepared ?e4 = Ret ((True, False), demo_a)"
    by code_simp
  have h5: "handle_one ascii_word demo_a ?e5 = Ret ((True, True), demo_a)"
    by code_simp
  from process_three_outcomes [of ?e1 demo_a ascii_word True True demo_a "KEY_OTHER 0" "[]"]
    process_three_outcomes [of ?e2 demo_a ascii_word True True demo_a "KEY_OTHER 0" "[]"]
    process_three_outcomes [of ?e3 demo_a ascii_word True True demo_a "KEY_OTHER 0" "[]"]
    process_three_outcomes [of ?e4 demo_prepared ascii_word True False demo_a "KEY_OTHER 0" "[]"]
    process_three_outcomes [of ?e5 demo_a ascii_word True True demo_a "KEY_OTHER 0" "[]"]
    f h3 h4 h5
  show ?thesis by auto
qed

text \<open>
  C10. A Ctrl-D key while the buffer is not empty is ignored: it is no cancellation, the
  key table has no entry for it, \<^verbatim>\<open>on_key\<close> returns \<open>false\<close> and the state as it is,
  the loop goes on with the next key, and \<^verbatim>\<open>process\<close> reports a consumed event with the
  state unchanged. The cancellation check accepts a \<open>d\<close> key only on an empty buffer and
  only with the modifier mask that is exactly CTRL.
\<close>

theorem ctrl_d_on_text_ignored:
  assumes "buffer s \<noteq> []" and "c = 68 \<or> c = 100"
  shows "\<not> is_cancel s (KEY_UNICODE KEYMOD_CTRL c)
       \<and> key_map_find cat (mod_mask KEYMOD_CTRL, CODEPOINT c) = None
       \<and> on_key cat s (KEY_UNICODE KEYMOD_CTRL c) = Ret (False, s)
       \<and> handle_keys cat s (KEY_UNICODE KEYMOD_CTRL c # ks) res = handle_keys cat s ks res
       \<and> process cat s \<lparr>ev_fd = tkfd s, ev_keys = [KEY_UNICODE KEYMOD_CTRL c],
            ev_result = RES_NONE, ev_winsize = w\<rparr> = Ret (Unexpected True, s)
       \<and> (\<forall>t m. is_cancel t (KEY_UNICODE m c) = (buffer t = [] \<and> m = KEYMOD_CTRL))"
proof -
  have nc: "\<not> is_cancel s (KEY_UNICODE KEYMOD_CTRL c)"
    using assms by (auto simp: is_cancel_def)
  have nf: "key_map_find cat (mod_mask KEYMOD_CTRL, CODEPOINT c) = None"
    using assms(2) by (auto simp: key_map_find_def key_map_def keymods)
  have ok: "on_key cat s (KEY_UNICODE KEYMOD_CTRL c) = Ret (False, s)"
    using nf by (simp add: on_key_def keymods)
  have hk: "handle_keys cat s (KEY_UNICODE KEYMOD_CTRL c # ks) res = handle_keys cat s ks res"
    for ks
    using nc ok by (simp add: bind_def)
  have pr: "process cat s \<lparr>ev_fd = tkfd s, ev_keys = [KEY_UNICODE KEYMOD_CTRL c],
            ev_result = RES_NONE, ev_winsize = w\<rparr> = Ret (Unexpected True, s)"
  proof -
    have "handle_keys cat s [KEY_UNICODE KEYMOD_CTRL c] RES_NONE = Ret ((True, False), s)"
      using nc ok by (simp add: bind_def)
    then show ?thesis
      by (simp add: process_def handle_one_def bind_def del: handle_keys.simps)
  qed
  have only: "\<forall>t m. is_cancel t (KEY_UNICODE m c) = (buffer t = [] \<and> m = KEYMOD_CTRL)"
    using assms(2) by (auto simp: is_cancel_def)
  from nc nf ok hk pr only show ?thesis by blast
qed

theorem ctrl_d_on_text_ignored_witness:
  "buffer demo_a \<noteq> []
   \<and> on_key ascii_word demo_a (KEY_UNICODE KEYMOD_CTRL 100) = Ret (False, demo_a)
   \<and> process ascii_word demo_a \<lparr>ev_fd = tkfd demo_a, ev_keys = [KEY_UNICODE KEYMOD_CTRL 100],
        ev_result = RES_NONE, ev_winsize = None\<rparr> = Ret (Unexpected True, demo_a)"
proof -
  have a: "buffer demo_a \<noteq> []" by code_simp
  from ctrl_d_on_text_ignored [OF a, of 100 ascii_word "[]" RES_NONE None] a
  show ?thesis by simp
qed

text \<open>
  C2. The claim: overwriting at an interior position replaces exactly one code point,
  the length of the buffer changes by the difference of the two encoded lengths, and the
  later line offsets move by that difference. The code does not do this when the lengths
  differ. Overwriting the two-byte \<open>U+00E9\<close> of \<open>caf\<close>\<open>U+00E9\<close> with \<open>e\<close> leaves five
  bytes, with the second byte of the old character after the \<open>e\<close>: the buffer is no
  longer UTF-8. With a second row, its line offset moves from 19 to 20 and not to 18.
  Overwriting the \<open>e\<close> of \<open>cafe\<close> with \<open>U+00E9\<close> erases a range that ends before it
  starts.
\<close>

theorem overwrite_with_other_length:
  "on_key ascii_word demo_cafe (KEY_UNICODE 0 101)
   = Ret (False, demo_state [99, 97, 102, 101, 169] [0] 4 4 6 6 0 False 1
            [99, 97, 102, 195, 169, 27, 91, 51, 59, 55, 72, 27, 91, 51, 59, 54, 72, 101])
   \<and> \<not> valid_utf8 [99, 97, 102, 101, 169]
   \<and> on_key ascii_word demo_two_rows (KEY_UNICODE 0 101)
     = Ret (False, demo_state ([101, 169] @ replicate 18 97) [0, 20] 1 19 3 3 0 False 2
              ([195, 169, 27, 91, 51, 59, 52, 72] @ replicate 17 97
               @ [27, 91, 52, 59, 49, 72, 27, 91, 51, 59, 50, 49, 72, 97, 97,
                  27, 91, 51, 59, 51, 72, 101]))
   \<and> on_key ascii_word demo_cafe_ascii (KEY_UNICODE 0 233) = Fail UndefinedBehaviour"
proof -
  have 1: "on_key ascii_word demo_cafe (KEY_UNICODE 0 101)
   = Ret (False, demo_state [99, 97, 102, 101, 169] [0] 4 4 6 6 0 False 1
            [99, 97, 102, 195, 169, 27, 91, 51, 59, 55, 72, 27, 91, 51, 59, 54, 72, 101])"
    by (simp add: eval_key demo_cafe_def)
  have 2: "\<not> valid_utf8 [99, 97, 102, 101, 169]"
    by (simp add: valid_utf8.simps is_cont_def)
  have 3: "on_key ascii_word demo_two_rows (KEY_UNICODE 0 101)
     = Ret (False, demo_state ([101, 169] @ replicate 18 97) [0, 20] 1 19 3 3 0 False 2
              ([195, 169, 27, 91, 51, 59, 52, 72] @ replicate 17 97
               @ [27, 91, 52, 59, 49, 72, 27, 91, 51, 59, 50, 49, 72, 97, 97,
                  27, 91, 51, 59, 51, 72, 101]))"
    by (simp add: eval_key demo_two_rows_def)
  have 4: "on_key ascii_word demo_cafe_ascii (KEY_UNICODE 0 233) = Fail UndefinedBehaviour"
    by (simp add: eval_key demo_cafe_ascii_def)
  from 1 2 3 4 show ?thesis by blast
qed

text \<open>
  C5. The claim: Alt-F moves to the first position after the cursor that is the end of
  the buffer or the end of a word. The code never stops at the first character boundary
  after the cursor: in \<open>a b\<close> with the cursor at offset 0 the position of the claim is 1,
  and the code moves to 3.
\<close>

theorem forward_word_skips_first_boundary:
  "spec_forward_word ascii_word (buffer demo_a_b) (offset demo_a_b) = Some 1
   \<and> on_key ascii_word demo_a_b (KEY_UNICODE KEYMOD_ALT 102)
     = Ret (False, demo_state [97, 32, 98] [0] 3 3 5 5 0 True 1
              [97, 32, 98, 27, 91, 51, 59, 51, 72, 27, 91, 51, 59, 54, 72])"
proof -
  have 1: "spec_forward_word ascii_word (buffer demo_a_b) (offset demo_a_b) = Some 1"
    by (simp add: spec_forward_word_def spec_word_end_def demo_a_b_def demo_state_def
        upt_rec u8_prev_def prev_at_def ascii_word_def)
  have 2: "on_key ascii_word demo_a_b (KEY_UNICODE KEYMOD_ALT 102)
     = Ret (False, demo_state [97, 32, 98] [0] 3 3 5 5 0 True 1
              [97, 32, 98, 27, 91, 51, 59, 51, 72, 27, 91, 51, 59, 54, 72])"
    by (simp add: eval_key demo_a_b_def cb_forward_word_def u8_next_def
        forward_word_loop.simps ascii_word_def row_forward.simps word_finish_def
        u8_mbsnlen.simps)
  from 1 2 show ?thesis by blast
qed

text \<open>
  C4, as the claim states it: \<^verbatim>\<open>recompute_line_offset\<close> cuts \<^verbatim>\<open>line_offset\<close> to
  \<open>r + 1\<close> entries and then appends a break whenever \<^verbatim>\<open>avail\<close> code points could be
  consumed, stopping only when fewer than \<^verbatim>\<open>avail\<close> remain. It fails where \<^verbatim>\<open>avail\<close> is
  zero at the end of the buffer: with a window as wide as the prompt and an empty buffer
  the words give the offsets \<open>[0, 0]\<close>, and the loop, which is guarded by
  \<^verbatim>\<open>o < buffer.size()\<close>, leaves \<open>[0]\<close>.
\<close>

theorem recompute_stops_at_buffer_end:
  "\<not> (\<forall>s r. valid_utf8 (buffer s) \<longrightarrow> r < length (line_offset s) \<longrightarrow>
          cp_boundary (buffer s) (line_offset s ! r) \<longrightarrow> 0 < term_cols s \<longrightarrow>
          recompute_line_offset s r
          = Ret (s\<lparr>line_offset := take (r + 1) (line_offset s)
                    @ claimed_rows (term_cols s) (avail_of s r) (line_offset s ! r)
                        (chars (drop (line_offset s ! r) (buffer s)))\<rparr>))"
proof
  assume all: "\<forall>s r. valid_utf8 (buffer s) \<longrightarrow> r < length (line_offset s) \<longrightarrow>
          cp_boundary (buffer s) (line_offset s ! r) \<longrightarrow> 0 < term_cols s \<longrightarrow>
          recompute_line_offset s r
          = Ret (s\<lparr>line_offset := take (r + 1) (line_offset s)
                    @ claimed_rows (term_cols s) (avail_of s r) (line_offset s ! r)
                        (chars (drop (line_offset s ! r) (buffer s)))\<rparr>)"
  have f: "buffer demo_narrow = []" "line_offset demo_narrow = [0]" "term_cols demo_narrow = 2"
    "avail_of demo_narrow 0 = 0"
    by (simp_all add: demo_narrow_def demo_prepared_def demo_state_def avail_of_def usub_def)
  have code: "recompute_line_offset demo_narrow 0 = Ret demo_narrow"
    by (simp add: recompute_line_offset_def Let_def f resize_def recompute_loop.simps)
  have words: "claimed_rows 2 0 0 [] = [0]"
    by (simp add: claimed_rows.simps)
  have "recompute_line_offset demo_narrow 0 = Ret (demo_narrow\<lparr>line_offset := [0, 0]\<rparr>)"
    using all [rule_format, of demo_narrow 0] f words by (simp add: cp_boundary_def)
  with code have "demo_narrow = demo_narrow\<lparr>line_offset := [0, 0]\<rparr>" by simp
  then have "line_offset demo_narrow = line_offset (demo_narrow\<lparr>line_offset := [0, 0]\<rparr>)"
    by (rule arg_cong)
  with f show False by simp
qed

text \<open>
  C4, amended. For a session with a well-formed buffer, a row \<open>r\<close> below the length of
  \<^verbatim>\<open>line_offset\<close> whose entry is a code point boundary, and a window of at least one
  column: \<^verbatim>\<open>recompute_line_offset\<close> returns, \<^verbatim>\<open>line_offset\<close> is cut to \<open>r + 1\<close> entries,
  and from \<^verbatim>\<open>line_offset[r]\<close> with \<^verbatim>\<open>avail = term_cols - (prompt_len if r == 0 else 0)\<close>
  it consumes \<^verbatim>\<open>avail\<close> code points at a time; it stops at the end of the buffer or when
  fewer than \<^verbatim>\<open>avail\<close> code points remain, and otherwise appends the new break offset
  and goes on with \<^verbatim>\<open>avail = term_cols\<close>.
\<close>

theorem recompute_line_offset_spec:
  assumes "valid_utf8 (buffer s)" and "r < length (line_offset s)"
    and "cp_boundary (buffer s) (line_offset s ! r)" and "0 < term_cols s"
  shows "recompute_line_offset s r
         = Ret (s\<lparr>line_offset := take (r + 1) (line_offset s)
                   @ spec_rows (term_cols s) (avail_of s r) (line_offset s ! r)
                       (chars (drop (line_offset s ! r) (buffer s)))\<rparr>)"
proof -
  have le: "line_offset s ! r \<le> length (buffer s)"
    using assms(3) by (auto simp: cp_boundary_def)
  have v: "valid_utf8 (drop (line_offset s ! r) (buffer s))"
    using boundary_valid[OF assms(1,3)] by simp
  have n: "take (r + 1) (line_offset s) ! r = line_offset s ! r"
    by simp
  have rs: "resize (r + 1) (line_offset s) = take (r + 1) (line_offset s)"
    using assms(2) by (rule resize_within)
  have av: "usub (term_cols s) (if r = 0 then prompt_len s else 0) = avail_of s r"
    by (simp add: avail_of_def)
  show ?thesis
    unfolding recompute_line_offset_def Let_def rs n av
    using recompute_loop_spec[OF assms(4) le v refl, of "avail_of s r" "take (r + 1) (line_offset s)"]
    by simp
qed

theorem recompute_line_offset_spec_witness:
  "valid_utf8 (buffer (demo_two_rows\<lparr>line_offset := [0, 7, 9]\<rparr>))
   \<and> cp_boundary (buffer (demo_two_rows\<lparr>line_offset := [0, 7, 9]\<rparr>))
        (line_offset (demo_two_rows\<lparr>line_offset := [0, 7, 9]\<rparr>) ! 0)
   \<and> 0 < term_cols (demo_two_rows\<lparr>line_offset := [0, 7, 9]\<rparr>)
   \<and> recompute_line_offset (demo_two_rows\<lparr>line_offset := [0, 7, 9]\<rparr>) 0 = Ret demo_two_rows
   \<and> line_offset demo_two_rows = [0, 19]"
proof -
  let ?s = "demo_two_rows\<lparr>line_offset := [0, 7, 9]\<rparr>"
  have f: "buffer ?s = [195, 169] @ replicate 18 97" "line_offset ?s = [0, 7, 9]"
    "term_cols ?s = 20" "avail_of ?s 0 = 18"
    by (simp_all add: demo_two_rows_def demo_state_def avail_of_def usub_def)
  have l: "line_offset demo_two_rows = [0, 19]"
    by (simp add: demo_two_rows_def demo_state_def)
  have c: "chars (195 # 169 # replicate 18 97) = [195, 169] # replicate 18 [97]"
    by code_simp
  have v: "valid_utf8 (buffer ?s)"
    unfolding f by code_simp
  have b: "cp_boundary (buffer ?s) (line_offset ?s ! 0)"
    unfolding f by (simp add: cp_boundary_def is_cont_def)
  have t: "0 < term_cols ?s" "0 < length (line_offset ?s)"
    unfolding f by simp_all
  have r: "spec_rows 20 18 0 ([195, 169] # replicate 18 [97]) = [19]"
    by code_simp
  have e: "?s\<lparr>line_offset := [0, 19]\<rparr> = demo_two_rows"
    by (simp add: demo_two_rows_def demo_state_def)
  have "recompute_line_offset ?s 0 = Ret (?s\<lparr>line_offset := [0, 19]\<rparr>)"
    using recompute_line_offset_spec [OF v t(2) b t(1)]
    by (simp add: f c r)
  with e v b t l show ?thesis by simp
qed

end
